theory Spec2Isabelle
  imports Main "HOL-Library.Word" "HOL-Library.AList" "HOL-Library.Multiset"
begin

section \<open>Requests, responses and the environment of a request\<close>

text \<open>
  The repository holds two versions of one relay server: \<^verbatim>\<open>src/server.js\<close>, which keeps
  users and messages in MongoDB through Mongoose, and \<^verbatim>\<open>src/unnamed/part_000\<close>, which
  keeps them in two JSON files. Definitions of the first carry the suffix \<open>_m\<close>, those of
  the second the suffix \<open>_f\<close>.

  A request body is what \<^verbatim>\<open>express.json()\<close> parsed: a JavaScript object, read as a map
  from field names to JSON values. \<open>None\<close> is JavaScript's \<^verbatim>\<open>undefined\<close> (the field is
  absent). JSON numbers are restricted to integers.
\<close>

datatype json =
    JNull
  | JBool bool
  | JNum int
  | JStr string
  | JArr "json list"
  | JObj "(string \<times> json) list"

type_synonym body = "string \<Rightarrow> json option"

text \<open>JavaScript's \<^verbatim>\<open>ToBoolean\<close>; \<^verbatim>\<open>!x\<close> is \<open>\<not> truthy x\<close>.\<close>

fun truthy :: "json option \<Rightarrow> bool" where
  "truthy None = False"
| "truthy (Some JNull) = False"
| "truthy (Some (JBool b)) = b"
| "truthy (Some (JNum n)) = (n \<noteq> 0)"
| "truthy (Some (JStr s)) = (s \<noteq> [])"
| "truthy (Some (JArr xs)) = True"
| "truthy (Some (JObj kvs)) = True"

text \<open>
  \<^verbatim>\<open>req.headers['x-api-key']\<close> is a string or \<^verbatim>\<open>undefined\<close>; \<^verbatim>\<open>!apiKey\<close> holds for
  \<^verbatim>\<open>undefined\<close> and for the empty string.
\<close>

definition truthy_header :: "string option \<Rightarrow> bool" where
  "truthy_header h = (case h of None \<Rightarrow> False | Some s \<Rightarrow> s \<noteq> [])"

text \<open>
  What a handler reads from outside the request: the 16 random bytes of
  \<^verbatim>\<open>crypto.randomBytes(16)\<close>, the clock (\<^verbatim>\<open>new Date()\<close>, \<^verbatim>\<open>Date.now\<close>, in milliseconds),
  the 12 bytes of the \<^verbatim>\<open>ObjectId\<close> that Mongoose gives a document created during the
  request, and whether the backing store works during the request. \<open>db_fault = Some k\<close>
  says that the \<open>k\<close>-th database operation of the request (counted from 0) rejects;
  \<open>disk_ok\<close> says that \<^verbatim>\<open>fs.writeFileSync\<close> succeeds.
\<close>

record env =
  rnd :: "128 word"
  now :: nat
  oid :: "96 word"
  db_fault :: "nat option"
  disk_ok :: bool

text \<open>
  A message as a response carries it. The flat-file server stores the five body fields as
  they came (any JSON value); the database server stores strings (the schema's type). A
  timestamp is the clock reading; its rendering as an ISO string or a BSON date is left
  out. \<open>msg_id\<close> is the \<^verbatim>\<open>_id\<close> property: the documents of the database server have
  one, the objects of the flat-file server have none.
\<close>

record message =
  msg_id :: "string option"
  msg_from :: json
  msg_to :: json
  ciphertext :: json
  encryptedKey :: json
  iv :: json
  timestamp :: nat

datatype payload =
    ErrorBody string
  | TokenBody string
  | PublicKeyBody "json option"
  | OkBody
  | MessagesBody "message list"
  | UsersBody "string list"
  | HtmlErrorPage

text \<open>
  \<open>HtmlErrorPage\<close> is the page of Express's default error handler, sent with status 500
  when an exception leaves a handler; every other payload is a JSON body.
\<close>

record response =
  status :: nat
  payload :: payload

definition json_error :: "nat \<Rightarrow> string \<Rightarrow> response" where
  "json_error code msg = \<lparr>status = code, payload = ErrorBody msg\<rparr>"

definition json_ok :: "payload \<Rightarrow> response" where
  "json_ok p = \<lparr>status = 200, payload = p\<rparr>"

definition express_default_error :: response where
  "express_default_error = \<lparr>status = 500, payload = HtmlErrorPage\<rparr>"

datatype request =
    Register body
  | PublicKey string
  | Send body "string option"
  | Messages string "string option"
  | Users

subsection \<open>Tokens\<close>

text \<open>\<^verbatim>\<open>crypto.randomBytes(16).toString('hex')\<close>: 32 lower-case hexadecimal digits.\<close>

definition hexchar :: "nat \<Rightarrow> char" where
  "hexchar d = ''0123456789abcdef'' ! d"

fun hex_pad :: "nat \<Rightarrow> nat \<Rightarrow> string" where
  "hex_pad 0 v = []"
| "hex_pad (Suc n) v = hex_pad n (v div 16) @ [hexchar (v mod 16)]"

definition randomHex :: "128 word \<Rightarrow> string" where
  "randomHex w = hex_pad 32 (unat w)"

section \<open>The flat-file server (src/unnamed/part\_000)\<close>

text \<open>
  A file is missing, present but unreadable (reading or \<^verbatim>\<open>JSON.parse\<close> throws), or holds
  a value. Only this server writes the files, so a file that parses holds a value of the
  shape the server wrote.
\<close>

datatype 'a jsonfile = Absent | Unreadable | Content 'a

record urec =
  publicKeyPem :: json
  token :: string
  createdAt :: nat

text \<open>
  \<^verbatim>\<open>users.json\<close> holds one object, username to record; its own properties are kept as an
  association list in creation order. \<^verbatim>\<open>messages.json\<close> holds an array.
\<close>

record fstate =
  users_file :: "(string \<times> urec) list jsonfile"
  msg_file :: "message list jsonfile"

text \<open>
  \<^verbatim>\<open>readJson\<close> (lines 14-21): a missing file is created with the fallback; any exception,
  also that of the creating write, is caught and the fallback returned. The result is the
  value read and the file afterwards.
\<close>

definition readJson :: "env \<Rightarrow> 'a jsonfile \<Rightarrow> 'a \<Rightarrow> 'a \<times> 'a jsonfile" where
  "readJson e f fallback =
     (case f of
        Absent \<Rightarrow> (fallback, if disk_ok e then Content fallback else Absent)
      | Unreadable \<Rightarrow> (fallback, Unreadable)
      | Content x \<Rightarrow> (x, Content x))"

text \<open>
  \<^verbatim>\<open>writeJson\<close> (lines 22-24) has no \<^verbatim>\<open>try\<close>: \<open>None\<close> is the exception of a failed
  write, which leaves the handler.
\<close>

definition writeJson :: "env \<Rightarrow> 'a \<Rightarrow> 'a jsonfile option" where
  "writeJson e obj = (if disk_ok e then Some (Content obj) else None)"

subsection \<open>Property access on the users object\<close>

text \<open>
  \<^verbatim>\<open>users\<close> is the object \<^verbatim>\<open>JSON.parse\<close> returned (or the literal \<^verbatim>\<open>{}\<close>), so its
  prototype is \<^verbatim>\<open>Object.prototype\<close>: \<^verbatim>\<open>users[k]\<close> is the own property \<open>k\<close> when there is
  one, and otherwise what \<^verbatim>\<open>Object.prototype\<close> has under \<open>k\<close> (a function, or for
  \<^verbatim>\<open>__proto__\<close> the prototype object itself: truthy, with no \<^verbatim>\<open>token\<close> and no
  \<^verbatim>\<open>publicKeyPem\<close>), and \<^verbatim>\<open>undefined\<close> for every other \<open>k\<close>.
\<close>

definition object_prototype_names :: "string list" where
  "object_prototype_names =
     [''constructor'', ''__proto__'', ''hasOwnProperty'', ''isPrototypeOf'',
      ''propertyIsEnumerable'', ''toLocaleString'', ''toString'', ''valueOf'',
      ''__defineGetter__'', ''__defineSetter__'', ''__lookupGetter__'',
      ''__lookupSetter__'']"

datatype propval = Undefined | Inherited | Own urec

definition js_get :: "(string \<times> urec) list \<Rightarrow> string \<Rightarrow> propval" where
  "js_get users k =
     (case map_of users k of
        Some r \<Rightarrow> Own r
      | None \<Rightarrow> if k \<in> set object_prototype_names then Inherited else Undefined)"

text \<open>\<^verbatim>\<open>user.token\<close> and \<^verbatim>\<open>u.publicKeyPem\<close> of a truthy \<^verbatim>\<open>users[k]\<close>.\<close>

fun prop_token :: "propval \<Rightarrow> string option" where
  "prop_token (Own r) = Some (token r)"
| "prop_token Inherited = None"
| "prop_token Undefined = None"

fun prop_publicKeyPem :: "propval \<Rightarrow> json option" where
  "prop_publicKeyPem (Own r) = Some (publicKeyPem r)"
| "prop_publicKeyPem Inherited = None"
| "prop_publicKeyPem Undefined = None"

text \<open>
  \<^verbatim>\<open>users[k] = v\<close> with \<open>v\<close> an object: an existing own property keeps its place, a new
  one is created last; the key \<^verbatim>\<open>__proto__\<close> sets the prototype of \<^verbatim>\<open>users\<close> instead and
  creates no property, so \<^verbatim>\<open>JSON.stringify\<close> writes the object as it was.
\<close>

definition js_set :: "(string \<times> urec) list \<Rightarrow> string \<Rightarrow> urec \<Rightarrow> (string \<times> urec) list" where
  "js_set users k v = (if k = ''__proto__'' then users else AList.update k v users)"

text \<open>
  A property key that is not a string is converted by JavaScript's \<^verbatim>\<open>ToString\<close>, taken
  here as the parameter \<open>K\<close>; a string is its own key.
\<close>

definition toPropertyKey :: "(json \<Rightarrow> string) \<Rightarrow> json \<Rightarrow> string" where
  "toPropertyKey K v = (case v of JStr s \<Rightarrow> s | _ \<Rightarrow> K v)"

text \<open>
  \<^verbatim>\<open>Object.keys\<close>: the keys that are array indices (canonical decimal numerals below
  \<open>2^32 - 1\<close>) in ascending order, then the other keys in creation order.
\<close>

definition digit :: "char \<Rightarrow> bool" where
  "digit c = (c \<in> set ''0123456789'')"

definition dec_value :: "string \<Rightarrow> nat" where
  "dec_value s = foldl (\<lambda>v c. 10 * v + (of_char c - 48)) 0 s"

definition array_index :: "string \<Rightarrow> nat option" where
  "array_index s =
     (if s \<noteq> [] \<and> list_all digit s \<and> (hd s \<noteq> CHR ''0'' \<or> length s = 1)
         \<and> dec_value s < 4294967295
      then Some (dec_value s) else None)"

definition object_keys :: "(string \<times> 'v) list \<Rightarrow> string list" where
  "object_keys al =
     (let ks = map fst al
      in sort_key (\<lambda>k. the (array_index k)) (filter (\<lambda>k. array_index k \<noteq> None) ks)
         @ filter (\<lambda>k. array_index k = None) ks)"

subsection \<open>Handlers\<close>

text \<open>POST /api/register (lines 27-38).\<close>

definition register_f :: "(json \<Rightarrow> string) \<Rightarrow> env \<Rightarrow> fstate \<Rightarrow> body \<Rightarrow> response \<times> fstate" where
  "register_f K e st b =
     (let username = b ''username''; publicKeyPem = b ''publicKeyPem'' in
      if \<not> truthy username \<or> \<not> truthy publicKeyPem
      then (json_error 400 ''username and publicKeyPem required'', st)
      else
        let (users, uf) = readJson e (users_file st) [];
            st1 = st\<lparr>users_file := uf\<rparr>;
            token = randomHex (rnd e);
            users' = js_set users (toPropertyKey K (the username))
                       \<lparr>publicKeyPem = the publicKeyPem, token = token, createdAt = now e\<rparr>
        in case writeJson e users' of
             None \<Rightarrow> (express_default_error, st1)
           | Some f \<Rightarrow> (json_ok (TokenBody token), st1\<lparr>users_file := f\<rparr>))"

text \<open>GET /api/publicKey/:username (lines 41-46).\<close>

definition publicKey_f :: "env \<Rightarrow> fstate \<Rightarrow> string \<Rightarrow> response \<times> fstate" where
  "publicKey_f e st username =
     (let (users, uf) = readJson e (users_file st) [];
          st1 = st\<lparr>users_file := uf\<rparr>;
          u = js_get users username
      in if u = Undefined then (json_error 404 ''user not found'', st1)
         else (json_ok (PublicKeyBody (prop_publicKeyPem u)), st1))"

text \<open>The object pushed at line 61.\<close>

definition message_of :: "body \<Rightarrow> env \<Rightarrow> message" where
  "message_of b e =
     \<lparr>msg_id = None, msg_from = the (b ''from''), msg_to = the (b ''to''),
      ciphertext = the (b ''ciphertext''), encryptedKey = the (b ''encryptedKey''),
      iv = the (b ''iv''), timestamp = now e\<rparr>"

text \<open>POST /api/send (lines 49-65).\<close>

definition send_f :: "(json \<Rightarrow> string) \<Rightarrow> env \<Rightarrow> fstate \<Rightarrow> body \<Rightarrow> string option \<Rightarrow> response \<times> fstate" where
  "send_f K e st b apiKey =
     (if \<not> truthy (b ''from'') \<or> \<not> truthy (b ''to'') \<or> \<not> truthy (b ''ciphertext'')
         \<or> \<not> truthy (b ''encryptedKey'') \<or> \<not> truthy (b ''iv'')
      then (json_error 400 ''missing fields'', st)
      else
        let (users, uf) = readJson e (users_file st) [];
            st1 = st\<lparr>users_file := uf\<rparr>;
            user = js_get users (toPropertyKey K (the (b ''from'')))
        in if user = Undefined then (json_error 400 ''unknown sender'', st1)
           else if \<not> truthy_header apiKey \<or> apiKey \<noteq> prop_token user
           then (json_error 401 ''invalid api key'', st1)
           else
             let (messages, mf) = readJson e (msg_file st1) [];
                 st2 = st1\<lparr>msg_file := mf\<rparr>;
                 messages' = messages @ [message_of b e]
             in case writeJson e messages' of
                  None \<Rightarrow> (express_default_error, st2)
                | Some f \<Rightarrow> (json_ok OkBody, st2\<lparr>msg_file := f\<rparr>))"

text \<open>
  GET /api/messages/:username (lines 68-79). \<^verbatim>\<open>m.to === username\<close> compares a stored
  JSON value with a string, so it holds for the string \<open>username\<close> only.
\<close>

definition messages_f :: "env \<Rightarrow> fstate \<Rightarrow> string \<Rightarrow> string option \<Rightarrow> response \<times> fstate" where
  "messages_f e st username apiKey =
     (let (users, uf) = readJson e (users_file st) [];
          st1 = st\<lparr>users_file := uf\<rparr>;
          user = js_get users username
      in if user = Undefined then (json_error 404 ''unknown user'', st1)
         else if \<not> truthy_header apiKey \<or> apiKey \<noteq> prop_token user
         then (json_error 401 ''invalid api key'', st1)
         else
           let (all_messages, mf) = readJson e (msg_file st1) [];
               messages = filter (\<lambda>m. msg_to m = JStr username) all_messages
           in (json_ok (MessagesBody messages), st1\<lparr>msg_file := mf\<rparr>))"

text \<open>GET /api/users (lines 82-85).\<close>

definition users_f :: "env \<Rightarrow> fstate \<Rightarrow> response \<times> fstate" where
  "users_f e st =
     (let (users, uf) = readJson e (users_file st) []
      in (json_ok (UsersBody (object_keys users)), st\<lparr>users_file := uf\<rparr>))"

fun step_f :: "(json \<Rightarrow> string) \<Rightarrow> env \<Rightarrow> fstate \<Rightarrow> request \<Rightarrow> response \<times> fstate" where
  "step_f K e st (Register b) = register_f K e st b"
| "step_f K e st (PublicKey u) = publicKey_f e st u"
| "step_f K e st (Send b h) = send_f K e st b h"
| "step_f K e st (Messages u h) = messages_f e st u h"
| "step_f K e st Users = users_f e st"

section \<open>The database server (src/server.js)\<close>

text \<open>
  The two collections, in insertion order. The schemas (lines 28-43) give every field but
  the dates the type \<^verbatim>\<open>String\<close>, and switch off the version key only: a document keeps
  the \<^verbatim>\<open>_id\<close> Mongoose gives it. The handlers return message documents whole, so the
  \<^verbatim>\<open>_id\<close> of a message is modelled; of a user document they read single fields, and
  its \<^verbatim>\<open>_id\<close> is left out.
\<close>

record user_doc =
  username :: string
  doc_publicKeyPem :: string
  doc_token :: string
  doc_createdAt :: nat

record message_doc =
  doc_id :: string
  doc_from :: string
  doc_to :: string
  doc_ciphertext :: string
  doc_encryptedKey :: string
  doc_iv :: string
  doc_timestamp :: nat

record mstate =
  user_coll :: "user_doc list"
  message_coll :: "message_doc list"

text \<open>An awaited promise rejects (the \<^verbatim>\<open>catch\<close> block runs) or resolves to a value.\<close>

datatype 'a promise = Rejected | Resolved 'a

text \<open>
  What Mongoose and MongoDB do beyond this repository's code is taken as a parameter.
  \<open>castString\<close> casts a document field that is not a string to the schema's type
  (\<open>None\<close>: a cast error, which makes \<^verbatim>\<open>save\<close> reject), and \<open>findOne_other\<close> answers
  \<^verbatim>\<open>User.findOne({ username: v })\<close> for such a \<open>v\<close>; a string is stored as it is and
  matches the documents whose \<^verbatim>\<open>username\<close> equals it. \<open>tie_order\<close> ranks the
  documents that a sorted query finds equal under its sort key: the database returns
  those in an order of its own, which need not be the insertion order.
\<close>

record mongoose =
  castString :: "json \<Rightarrow> string option"
  findOne_other :: "json \<Rightarrow> user_doc list \<Rightarrow> user_doc option promise"
  tie_order :: "message_doc \<Rightarrow> nat"

definition cast :: "mongoose \<Rightarrow> json \<Rightarrow> string option" where
  "cast M v = (case v of JStr s \<Rightarrow> Some s | _ \<Rightarrow> castString M v)"

text \<open>\<^verbatim>\<open>User.findOne({ username: v }).lean()\<close>, as the \<open>k\<close>-th database operation.\<close>

definition User_findOne :: "mongoose \<Rightarrow> env \<Rightarrow> nat \<Rightarrow> mstate \<Rightarrow> json \<Rightarrow> user_doc option promise" where
  "User_findOne M e k st v =
     (if db_fault e = Some k then Rejected
      else case v of
             JStr s \<Rightarrow> Resolved (find (\<lambda>u. username u = s) (user_coll st))
           | _ \<Rightarrow> findOne_other M v (user_coll st))"

text \<open>
  \<^verbatim>\<open>new User({ username, publicKeyPem, token })\<close>: the fields are cast to the schema's
  type and \<^verbatim>\<open>createdAt\<close> defaults to the clock. \<open>None\<close> is a document that validation
  will refuse when it is saved: a field that does not cast, or a \<^verbatim>\<open>required\<close> field
  that is the empty string.
\<close>

definition new_User :: "mongoose \<Rightarrow> env \<Rightarrow> json \<Rightarrow> json \<Rightarrow> string \<Rightarrow> user_doc option" where
  "new_User M e uname pem tok =
     (case (cast M uname, cast M pem) of
        (Some u, Some p) \<Rightarrow>
          if u = [] \<or> p = [] \<or> tok = [] then None
          else Some \<lparr>username = u, doc_publicKeyPem = p, doc_token = tok,
                     doc_createdAt = now e\<rparr>
      | _ \<Rightarrow> None)"

text \<open>
  \<^verbatim>\<open>user.save()\<close>, as the \<open>k\<close>-th database operation; the unique index on
  \<^verbatim>\<open>username\<close> (lines 29 and 34) refuses a duplicate.
\<close>

definition User_save :: "env \<Rightarrow> nat \<Rightarrow> mstate \<Rightarrow> user_doc option \<Rightarrow> mstate promise" where
  "User_save e k st doc =
     (case doc of
        None \<Rightarrow> Rejected
      | Some d \<Rightarrow>
          if db_fault e = Some k then Rejected
          else if username d \<in> set (map username (user_coll st)) then Rejected
          else Resolved (st\<lparr>user_coll := user_coll st @ [d]\<rparr>))"

text \<open>The \<^verbatim>\<open>ObjectId\<close> of a new document, as JSON renders it: 24 hexadecimal digits.\<close>

definition objectId :: "96 word \<Rightarrow> string" where
  "objectId w = hex_pad 24 (unat w)"

text \<open>\<^verbatim>\<open>new Message({ from, to, ciphertext, encryptedKey, iv })\<close> and \<^verbatim>\<open>msg.save()\<close>.\<close>

definition new_Message :: "mongoose \<Rightarrow> env \<Rightarrow> body \<Rightarrow> message_doc option" where
  "new_Message M e b =
     (case map (\<lambda>f. cast M (the (b f)))
             [''from'', ''to'', ''ciphertext'', ''encryptedKey'', ''iv''] of
        [Some f, Some t, Some c, Some ek, Some i] \<Rightarrow>
          if f = [] \<or> t = [] \<or> c = [] \<or> ek = [] \<or> i = [] then None
          else Some \<lparr>doc_id = objectId (oid e), doc_from = f, doc_to = t,
                     doc_ciphertext = c, doc_encryptedKey = ek, doc_iv = i,
                     doc_timestamp = now e\<rparr>
      | _ \<Rightarrow> None)"

definition Message_save :: "env \<Rightarrow> nat \<Rightarrow> mstate \<Rightarrow> message_doc option \<Rightarrow> mstate promise" where
  "Message_save e k st doc =
     (case doc of
        None \<Rightarrow> Rejected
      | Some d \<Rightarrow>
          if db_fault e = Some k then Rejected
          else Resolved (st\<lparr>message_coll := message_coll st @ [d]\<rparr>))"

text \<open>
  \<^verbatim>\<open>.lean()\<close>: the document as a plain object, with all its fields and its \<^verbatim>\<open>_id\<close>.
\<close>

definition lean :: "message_doc \<Rightarrow> message" where
  "lean d = \<lparr>msg_id = Some (doc_id d), msg_from = JStr (doc_from d), msg_to = JStr (doc_to d),
             ciphertext = JStr (doc_ciphertext d), encryptedKey = JStr (doc_encryptedKey d),
             iv = JStr (doc_iv d), timestamp = doc_timestamp d\<rparr>"

text \<open>
  \<^verbatim>\<open>.sort({ timestamp: 1 })\<close>: ascending in the timestamp. The order of documents
  with equal timestamps is the database's: they come in the order of their \<open>tie_order\<close>
  (two documents that the database ranks equal as well stay as they were found).
\<close>

definition sort_timestamp :: "mongoose \<Rightarrow> message_doc list \<Rightarrow> message_doc list" where
  "sort_timestamp M ds = sort_key doc_timestamp (sort_key (tie_order M) ds)"

text \<open>\<^verbatim>\<open>Message.find({ to: username }).sort({ timestamp: 1 }).lean()\<close>.\<close>

definition Message_find :: "mongoose \<Rightarrow> env \<Rightarrow> nat \<Rightarrow> mstate \<Rightarrow> string \<Rightarrow> message list promise" where
  "Message_find M e k st uname =
     (if db_fault e = Some k then Rejected
      else Resolved (map lean (sort_timestamp M
                                 (filter (\<lambda>d. doc_to d = uname) (message_coll st)))))"

text \<open>\<^verbatim>\<open>User.find({}, 'username').lean()\<close>.\<close>

definition User_find :: "env \<Rightarrow> nat \<Rightarrow> mstate \<Rightarrow> user_doc list promise" where
  "User_find e k st = (if db_fault e = Some k then Rejected else Resolved (user_coll st))"

subsection \<open>Handlers\<close>

text \<open>Every handler's \<^verbatim>\<open>catch\<close> block.\<close>

definition internal_error :: response where
  "internal_error = json_error 500 ''internal error''"

text \<open>POST /api/register (lines 51-70).\<close>

definition register_m :: "mongoose \<Rightarrow> env \<Rightarrow> mstate \<Rightarrow> body \<Rightarrow> response \<times> mstate" where
  "register_m M e st b =
     (let username = b ''username''; publicKeyPem = b ''publicKeyPem'' in
      if \<not> truthy username \<or> \<not> truthy publicKeyPem
      then (json_error 400 ''username and publicKeyPem required'', st)
      else
        case User_findOne M e 0 st (the username) of
          Rejected \<Rightarrow> (internal_error, st)
        | Resolved (Some existing) \<Rightarrow> (json_ok (TokenBody (doc_token existing)), st)
        | Resolved None \<Rightarrow>
            (let token = randomHex (rnd e);
                 user = new_User M e (the username) (the publicKeyPem) token in
             (case User_save e 1 st user of
                Rejected \<Rightarrow> (internal_error, st)
              | Resolved st' \<Rightarrow> (json_ok (TokenBody token), st'))))"

text \<open>GET /api/publicKey/:username (lines 73-82).\<close>

definition publicKey_m :: "mongoose \<Rightarrow> env \<Rightarrow> mstate \<Rightarrow> string \<Rightarrow> response \<times> mstate" where
  "publicKey_m M e st uname =
     (case User_findOne M e 0 st (JStr uname) of
        Rejected \<Rightarrow> (internal_error, st)
      | Resolved None \<Rightarrow> (json_error 404 ''user not found'', st)
      | Resolved (Some u) \<Rightarrow> (json_ok (PublicKeyBody (Some (JStr (doc_publicKeyPem u)))), st))"

text \<open>POST /api/send (lines 85-104).\<close>

definition send_m :: "mongoose \<Rightarrow> env \<Rightarrow> mstate \<Rightarrow> body \<Rightarrow> string option \<Rightarrow> response \<times> mstate" where
  "send_m M e st b apiKey =
     (if \<not> truthy (b ''from'') \<or> \<not> truthy (b ''to'') \<or> \<not> truthy (b ''ciphertext'')
         \<or> \<not> truthy (b ''encryptedKey'') \<or> \<not> truthy (b ''iv'')
      then (json_error 400 ''missing fields'', st)
      else
        case User_findOne M e 0 st (the (b ''from'')) of
          Rejected \<Rightarrow> (internal_error, st)
        | Resolved None \<Rightarrow> (json_error 400 ''unknown sender'', st)
        | Resolved (Some user) \<Rightarrow>
            if \<not> truthy_header apiKey \<or> apiKey \<noteq> Some (doc_token user)
            then (json_error 401 ''invalid api key'', st)
            else
              (let msg = new_Message M e b in
               (case Message_save e 1 st msg of
                  Rejected \<Rightarrow> (internal_error, st)
                | Resolved st' \<Rightarrow> (json_ok OkBody, st'))))"

text \<open>GET /api/messages/:username (lines 107-122).\<close>

definition messages_m :: "mongoose \<Rightarrow> env \<Rightarrow> mstate \<Rightarrow> string \<Rightarrow> string option \<Rightarrow> response \<times> mstate" where
  "messages_m M e st uname apiKey =
     (case User_findOne M e 0 st (JStr uname) of
        Rejected \<Rightarrow> (internal_error, st)
      | Resolved None \<Rightarrow> (json_error 404 ''unknown user'', st)
      | Resolved (Some user) \<Rightarrow>
          if \<not> truthy_header apiKey \<or> apiKey \<noteq> Some (doc_token user)
          then (json_error 401 ''invalid api key'', st)
          else
            (case Message_find M e 1 st uname of
               Rejected \<Rightarrow> (internal_error, st)
             | Resolved ms \<Rightarrow> (json_ok (MessagesBody ms), st)))"

text \<open>GET /api/users (lines 125-133).\<close>

definition users_m :: "env \<Rightarrow> mstate \<Rightarrow> response \<times> mstate" where
  "users_m e st =
     (case User_find e 0 st of
        Rejected \<Rightarrow> (internal_error, st)
      | Resolved docs \<Rightarrow> (json_ok (UsersBody (map username docs)), st))"

fun step_m :: "mongoose \<Rightarrow> env \<Rightarrow> mstate \<Rightarrow> request \<Rightarrow> response \<times> mstate" where
  "step_m M e st (Register b) = register_m M e st b"
| "step_m M e st (PublicKey u) = publicKey_m M e st u"
| "step_m M e st (Send b h) = send_m M e st b h"
| "step_m M e st (Messages u h) = messages_m M e st u h"
| "step_m M e st Users = users_m e st"

section \<open>Runs\<close>

text \<open>
  The server handles one request after the other; a run pairs each request with the
  environment it is handled in. \<open>exec\<close> is the store after a run, \<open>run\<close> the responses.
\<close>

fun exec_f :: "(json \<Rightarrow> string) \<Rightarrow> fstate \<Rightarrow> (env \<times> request) list \<Rightarrow> fstate" where
  "exec_f K st [] = st"
| "exec_f K st ((e, r) # rs) = exec_f K (snd (step_f K e st r)) rs"

fun run_f :: "(json \<Rightarrow> string) \<Rightarrow> fstate \<Rightarrow> (env \<times> request) list \<Rightarrow> response list" where
  "run_f K st [] = []"
| "run_f K st ((e, r) # rs) = fst (step_f K e st r) # run_f K (snd (step_f K e st r)) rs"

fun exec_m :: "mongoose \<Rightarrow> mstate \<Rightarrow> (env \<times> request) list \<Rightarrow> mstate" where
  "exec_m M st [] = st"
| "exec_m M st ((e, r) # rs) = exec_m M (snd (step_m M e st r)) rs"

fun run_m :: "mongoose \<Rightarrow> mstate \<Rightarrow> (env \<times> request) list \<Rightarrow> response list" where
  "run_m M st [] = []"
| "run_m M st ((e, r) # rs) = fst (step_m M e st r) # run_m M (snd (step_m M e st r)) rs"

text \<open>
  What the flat-file server reads from its files (\<^verbatim>\<open>readJson\<close> with the fallbacks
  \<^verbatim>\<open>{}\<close> and \<^verbatim>\<open>[]\<close>), and the messages of the database as the server returns them.
\<close>

definition stored_users_f :: "fstate \<Rightarrow> (string \<times> urec) list" where
  "stored_users_f st = (case users_file st of Content us \<Rightarrow> us | _ \<Rightarrow> [])"

definition stored_messages_f :: "fstate \<Rightarrow> message list" where
  "stored_messages_f st = (case msg_file st of Content ms \<Rightarrow> ms | _ \<Rightarrow> [])"

definition stored_messages_m :: "mstate \<Rightarrow> message list" where
  "stored_messages_m st = map lean (message_coll st)"

text \<open>A fresh installation: no files, empty collections.\<close>

definition init_f :: fstate where
  "init_f = \<lparr>users_file = Absent, msg_file = Absent\<rparr>"

definition init_m :: mstate where
  "init_m = \<lparr>user_coll = [], message_coll = []\<rparr>"

section \<open>Specification predicates\<close>

text \<open>
  Every token the servers store came from \<open>randomHex\<close>: 32 characters. Both predicates
  hold in the fresh state and are kept by every handler.
\<close>

definition wf_f :: "fstate \<Rightarrow> bool" where
  "wf_f st = list_all (\<lambda>kr. length (token (snd kr)) = 32) (stored_users_f st)"

definition wf_m :: "mstate \<Rightarrow> bool" where
  "wf_m st = list_all (\<lambda>u. length (doc_token u) = 32) (user_coll st)"

text \<open>
  The number of database operations a handler of the database server starts when none of
  them fails: the lookup of the user, and a second operation where the handler goes on to
  save or to query.
\<close>

definition db_operations :: "mongoose \<Rightarrow> env \<Rightarrow> mstate \<Rightarrow> request \<Rightarrow> nat" where
  "db_operations M e st req =
     (let ok = e\<lparr>db_fault := None\<rparr> in
      case req of
        Register b \<Rightarrow>
          if \<not> truthy (b ''username'') \<or> \<not> truthy (b ''publicKeyPem'') then 0
          else (case User_findOne M ok 0 st (the (b ''username'')) of
                  Resolved None \<Rightarrow> 2 | _ \<Rightarrow> 1)
      | PublicKey u \<Rightarrow> 1
      | Send b h \<Rightarrow>
          if \<not> truthy (b ''from'') \<or> \<not> truthy (b ''to'') \<or> \<not> truthy (b ''ciphertext'')
             \<or> \<not> truthy (b ''encryptedKey'') \<or> \<not> truthy (b ''iv'') then 0
          else (case User_findOne M ok 0 st (the (b ''from'')) of
                  Resolved (Some user) \<Rightarrow>
                    if \<not> truthy_header h \<or> h \<noteq> Some (doc_token user) then 1 else 2
                | _ \<Rightarrow> 1)
      | Messages u h \<Rightarrow>
          (case User_findOne M ok 0 st (JStr u) of
             Resolved (Some user) \<Rightarrow>
               if \<not> truthy_header h \<or> h \<noteq> Some (doc_token user) then 1 else 2
           | _ \<Rightarrow> 1)
      | Users \<Rightarrow> 1)"

text \<open>Whether a handler of the flat-file server reaches a \<^verbatim>\<open>writeJson\<close>.\<close>

definition writes_f :: "(json \<Rightarrow> string) \<Rightarrow> env \<Rightarrow> fstate \<Rightarrow> request \<Rightarrow> bool" where
  "writes_f K e st req =
     (case req of
        Register b \<Rightarrow> truthy (b ''username'') \<and> truthy (b ''publicKeyPem'')
      | Send b h \<Rightarrow>
          truthy (b ''from'') \<and> truthy (b ''to'') \<and> truthy (b ''ciphertext'')
          \<and> truthy (b ''encryptedKey'') \<and> truthy (b ''iv'')
          \<and> (case js_get (fst (readJson e (users_file st) []))
                      (toPropertyKey K (the (b ''from''))) of
                Undefined \<Rightarrow> False
              | user \<Rightarrow> truthy_header h \<and> h = prop_token user)
      | _ \<Rightarrow> False)"

text \<open>
  A body field as the specification wants it: a non-empty string. \<open>str\<close> reads the
  string.
\<close>

definition nonempty_string :: "json option \<Rightarrow> bool" where
  "nonempty_string v = (case v of Some (JStr s) \<Rightarrow> s \<noteq> [] | _ \<Rightarrow> False)"

definition str :: "json option \<Rightarrow> string" where
  "str v = (case v of Some (JStr s) \<Rightarrow> s | _ \<Rightarrow> [])"

definition valid_send :: "body \<Rightarrow> bool" where
  "valid_send b =
     list_all (\<lambda>f. nonempty_string (b f))
       [''from'', ''to'', ''ciphertext'', ''encryptedKey'', ''iv'']"

definition valid_register :: "body \<Rightarrow> bool" where
  "valid_register b =
     list_all (\<lambda>f. nonempty_string (b f)) [''username'', ''publicKeyPem'']"

text \<open>The document the database server stores for a body of non-empty strings.\<close>

definition doc_of :: "body \<Rightarrow> env \<Rightarrow> message_doc" where
  "doc_of b e =
     \<lparr>doc_id = objectId (oid e), doc_from = str (b ''from''), doc_to = str (b ''to''),
      doc_ciphertext = str (b ''ciphertext''), doc_encryptedKey = str (b ''encryptedKey''),
      doc_iv = str (b ''iv''), doc_timestamp = now e\<rparr>"

text \<open>
  The user document the database server stores for a registration body of non-empty
  strings.
\<close>

definition user_of :: "body \<Rightarrow> env \<Rightarrow> user_doc" where
  "user_of b e =
     \<lparr>username = str (b ''username''), doc_publicKeyPem = str (b ''publicKeyPem''),
      doc_token = randomHex (rnd e), doc_createdAt = now e\<rparr>"

subsection \<open>Runs on which the two servers agree\<close>

text \<open>
  A field is plain when it is absent or a string. A name is inherited when
  \<^verbatim>\<open>Object.prototype\<close> has a property of that name, and ordinary when it is neither
  inherited nor an array index (\<^verbatim>\<open>Object.keys\<close> lists array indices first).
\<close>

definition plain_field :: "json option \<Rightarrow> bool" where
  "plain_field v = (case v of None \<Rightarrow> True | Some (JStr s) \<Rightarrow> True | Some _ \<Rightarrow> False)"

definition inherited :: "string \<Rightarrow> bool" where
  "inherited n = (n \<in> set object_prototype_names)"

definition ordinary_name :: "string \<Rightarrow> bool" where
  "ordinary_name n = (\<not> inherited n \<and> array_index n = None)"

fun plain_request :: "request \<Rightarrow> bool" where
  "plain_request (Register b) =
     (plain_field (b ''username'') \<and> plain_field (b ''publicKeyPem'')
      \<and> ordinary_name (str (b ''username'')))"
| "plain_request (PublicKey u) = (\<not> inherited u)"
| "plain_request (Send b h) =
     (list_all (\<lambda>f. plain_field (b f))
        [''from'', ''to'', ''ciphertext'', ''encryptedKey'', ''iv'']
      \<and> \<not> inherited (str (b ''from'')))"
| "plain_request (Messages u h) = (\<not> inherited u)"
| "plain_request Users = True"

text \<open>The store works during the request.\<close>

definition env_ok :: "env \<Rightarrow> bool" where
  "env_ok e = (db_fault e = None \<and> disk_ok e)"

text \<open>The usernames of the valid registrations of a run, in order.\<close>

fun registrations :: "(env \<times> request) list \<Rightarrow> string list" where
  "registrations [] = []"
| "registrations ((e, Register b) # rs) =
     (if valid_register b then str (b ''username'') # registrations rs
      else registrations rs)"
| "registrations ((e, r) # rs) = registrations rs"

text \<open>The clock readings of the send requests of a run, in order.\<close>

fun send_times :: "(env \<times> request) list \<Rightarrow> nat list" where
  "send_times [] = []"
| "send_times ((e, Send b h) # rs) = now e # send_times rs"
| "send_times ((e, r) # rs) = send_times rs"

text \<open>
  A plain run: the store works, every body field is absent or a string, no username or
  sender name is inherited, no registered name is an array index, no username is
  registered twice, and the clock advances from each send request to the next.
\<close>

definition plain_run :: "(env \<times> request) list \<Rightarrow> bool" where
  "plain_run rs =
     (list_all (\<lambda>x. env_ok (fst x) \<and> plain_request (snd x)) rs
      \<and> distinct (registrations rs)
      \<and> sorted_wrt (<) (send_times rs))"

text \<open>
  A message without its \<^verbatim>\<open>_id\<close>, and a response whose messages are without theirs.
\<close>

definition without_id :: "message \<Rightarrow> message" where
  "without_id m = m\<lparr>msg_id := None\<rparr>"

definition strip_ids :: "response \<Rightarrow> response" where
  "strip_ids r =
     (case payload r of
        MessagesBody ms \<Rightarrow> r\<lparr>payload := MessagesBody (map without_id ms)\<rparr>
      | _ \<Rightarrow> r)"

text \<open>
  The flat-file store that holds what a database holds, the messages without their
  \<^verbatim>\<open>_id\<close>: the abstraction under which the two servers are compared.
\<close>

definition entry_of :: "user_doc \<Rightarrow> string \<times> urec" where
  "entry_of d =
     (username d, \<lparr>publicKeyPem = JStr (doc_publicKeyPem d), token = doc_token d,
                   createdAt = doc_createdAt d\<rparr>)"

definition sim :: "fstate \<Rightarrow> mstate \<Rightarrow> bool" where
  "sim sf sm =
     (stored_users_f sf = map entry_of (user_coll sm)
      \<and> stored_messages_f sf = map without_id (stored_messages_m sm))"

section \<open>Example inputs\<close>

text \<open>
  Concrete environments, library parameters and requests, used to evaluate the handlers.
  \<open>K0\<close> and \<open>M0\<close> are arbitrary choices of the library behaviour on values that are not
  strings; no example below passes such a value to them. Among documents of equal
  timestamp \<open>M0\<close> ranks none before another, and \<open>M_rev\<close> is a database that returns
  the document with ciphertext \<^verbatim>\<open>c2\<close> first.
\<close>

definition K0 :: "json \<Rightarrow> string" where
  "K0 v = []"

definition M0 :: mongoose where
  "M0 = \<lparr>castString = (\<lambda>v. None), findOne_other = (\<lambda>v us. Rejected),
          tie_order = (\<lambda>d. 0)\<rparr>"

definition M_rev :: mongoose where
  "M_rev = \<lparr>castString = (\<lambda>v. None), findOne_other = (\<lambda>v us. Rejected),
             tie_order = (\<lambda>d. if doc_ciphertext d = ''c2'' then 0 else 1)\<rparr>"

definition env0 :: env where
  "env0 = \<lparr>rnd = 1, now = 10, oid = 100, db_fault = None, disk_ok = True\<rparr>"

definition env1 :: env where
  "env1 = \<lparr>rnd = 2, now = 20, oid = 101, db_fault = None, disk_ok = True\<rparr>"

definition env2 :: env where
  "env2 = \<lparr>rnd = 3, now = 30, oid = 102, db_fault = None, disk_ok = True\<rparr>"

definition env2b :: env where
  "env2b = \<lparr>rnd = 6, now = 35, oid = 105, db_fault = None, disk_ok = True\<rparr>"

definition env_tie :: env where
  "env_tie = \<lparr>rnd = 7, now = 30, oid = 106, db_fault = None, disk_ok = True\<rparr>"

definition env3 :: env where
  "env3 = \<lparr>rnd = 4, now = 40, oid = 103, db_fault = None, disk_ok = True\<rparr>"

definition env_down :: env where
  "env_down = \<lparr>rnd = 5, now = 50, oid = 104, db_fault = Some 0, disk_ok = True\<rparr>"

definition reg_body :: "string \<Rightarrow> string \<Rightarrow> body" where
  "reg_body u k = [''username'' \<mapsto> JStr u, ''publicKeyPem'' \<mapsto> JStr k]"

definition send_body :: "string \<Rightarrow> string \<Rightarrow> string \<Rightarrow> body" where
  "send_body f t c =
     [''from'' \<mapsto> JStr f, ''to'' \<mapsto> JStr t, ''ciphertext'' \<mapsto> JStr c,
      ''encryptedKey'' \<mapsto> JStr ''key'', ''iv'' \<mapsto> JStr ''iv'']"

definition corrupt_f :: fstate where
  "corrupt_f = \<lparr>users_file = Unreadable, msg_file = Unreadable\<rparr>"

text \<open>
  The stores after \<^verbatim>\<open>alice\<close> and \<^verbatim>\<open>bob\<close> registered (in the environments \<open>env0\<close> and
  \<open>env1\<close>) and three messages were sent.
\<close>

definition alice_rec :: urec where
  "alice_rec = \<lparr>publicKeyPem = JStr ''PEM_A'', token = randomHex 1, createdAt = 10\<rparr>"

definition bob_rec :: urec where
  "bob_rec = \<lparr>publicKeyPem = JStr ''PEM_B'', token = randomHex 2, createdAt = 20\<rparr>"

definition alice_doc :: user_doc where
  "alice_doc = \<lparr>username = ''alice'', doc_publicKeyPem = ''PEM_A'', doc_token = randomHex 1,
                 doc_createdAt = 10\<rparr>"

definition bob_doc :: user_doc where
  "bob_doc = \<lparr>username = ''bob'', doc_publicKeyPem = ''PEM_B'', doc_token = randomHex 2,
               doc_createdAt = 20\<rparr>"

definition example_bodies :: "(body \<times> env) list" where
  "example_bodies =
     [(send_body ''alice'' ''bob'' ''c1'', env2), (send_body ''bob'' ''alice'' ''c2'', env2b),
      (send_body ''alice'' ''bob'' ''c3'', env3)]"

definition sf_example :: fstate where
  "sf_example =
     \<lparr>users_file = Content [(''alice'', alice_rec), (''bob'', bob_rec)],
      msg_file = Content (map (\<lambda>(b, e). message_of b e) example_bodies)\<rparr>"

definition sm_example :: mstate where
  "sm_example =
     \<lparr>user_coll = [alice_doc, bob_doc],
      message_coll = map (\<lambda>(b, e). doc_of b e) example_bodies\<rparr>"

text \<open>
  The run that leads to the example stores: \<^verbatim>\<open>alice\<close> and \<^verbatim>\<open>bob\<close> register, then
  three messages are sent.
\<close>

definition scenario :: "(env \<times> request) list" where
  "scenario =
     [(env0, Register (reg_body ''alice'' ''PEM_A'')),
      (env1, Register (reg_body ''bob'' ''PEM_B'')),
      (env2, Send (send_body ''alice'' ''bob'' ''c1'') (Some (randomHex 1))),
      (env2b, Send (send_body ''bob'' ''alice'' ''c2'') (Some (randomHex 2))),
      (env3, Send (send_body ''alice'' ''bob'' ''c3'') (Some (randomHex 1)))]"

text \<open>
  The end-to-end scenario of the specification: the example run, then \<^verbatim>\<open>bob\<close> fetches
  with his token and with a wrong one, somebody fetches for \<^verbatim>\<open>carol\<close>, who never
  registered, and the public key of \<^verbatim>\<open>alice\<close> and the list of users are read.
\<close>

definition session :: "(env \<times> request) list" where
  "session =
     scenario @
     [(env3, Messages ''bob'' (Some (randomHex 2))),
      (env3, Messages ''bob'' (Some ''x'')),
      (env3, Messages ''carol'' None),
      (env3, PublicKey ''alice''),
      (env3, Users)]"

text \<open>
  The same username registered twice, with different keys, and then a fetch with the
  token of the first registration.
\<close>

definition twice :: "(env \<times> request) list" where
  "twice =
     [(env0, Register (reg_body ''alice'' ''K1'')),
      (env1, Register (reg_body ''alice'' ''K2'')),
      (env2, Messages ''alice'' (Some (randomHex 1)))]"

text \<open>
  Runs outside the plain ones: a numeric field, usernames that are array indices, a name
  inherited from \<^verbatim>\<open>Object.prototype\<close>, a clock that goes back between two sends, and
  two sends within the same millisecond.
\<close>

definition numeric_run :: "(env \<times> request) list" where
  "numeric_run =
     [(env0, Register (reg_body ''alice'' ''PEM_A'')),
      (env1, Send ((send_body ''alice'' ''alice'' ''c'')(''ciphertext'' \<mapsto> JNum 42))
               (Some (randomHex 1))),
      (env2, Messages ''alice'' (Some (randomHex 1)))]"

definition index_run :: "(env \<times> request) list" where
  "index_run =
     [(env0, Register (reg_body ''10'' ''PEM_A'')),
      (env1, Register (reg_body ''9'' ''PEM_B'')),
      (env2, Users)]"

definition inherited_run :: "(env \<times> request) list" where
  "inherited_run = [(env0, PublicKey ''toString'')]"

definition clock_back_run :: "(env \<times> request) list" where
  "clock_back_run =
     [(env0, Register (reg_body ''alice'' ''PEM_A'')),
      (env3, Send (send_body ''alice'' ''alice'' ''c1'') (Some (randomHex 1))),
      (env2, Send (send_body ''alice'' ''alice'' ''c2'') (Some (randomHex 1))),
      (env3, Messages ''alice'' (Some (randomHex 1)))]"

definition tie_run :: "(env \<times> request) list" where
  "tie_run =
     [(env0, Register (reg_body ''alice'' ''PEM_A'')),
      (env2, Send (send_body ''alice'' ''alice'' ''c1'') (Some (randomHex 1))),
      (env_tie, Send (send_body ''alice'' ''alice'' ''c2'') (Some (randomHex 1))),
      (env3, Messages ''alice'' (Some (randomHex 1)))]"

section \<open>Basic facts\<close>

lemma length_hex_pad: "length (hex_pad n v) = n"
  by (induction n arbitrary: v) simp_all

lemma length_randomHex: "length (randomHex w) = 32"
  by (simp add: randomHex_def length_hex_pad)

lemma randomHex_nonempty: "randomHex w \<noteq> []"
  using length_randomHex [of w] by auto

lemma status_json_error [simp]: "status (json_error c m) = c"
  by (simp add: json_error_def)

lemma status_json_ok [simp]: "status (json_ok p) = 200"
  by (simp add: json_ok_def)

lemma status_internal_error [simp]: "status internal_error = 500"
  by (simp add: internal_error_def)

lemma status_express_default_error [simp]: "status express_default_error = 500"
  by (simp add: express_default_error_def)

lemma json_error_eq [simp]: "(json_error c m = json_error c' m') = (c = c' \<and> m = m')"
  by (auto simp: json_error_def)

lemma json_error_eq_ok [simp]:
  "(json_error c m = json_ok p) = (c = 200 \<and> p = ErrorBody m)"
  "(json_ok p = json_error c m) = (c = 200 \<and> p = ErrorBody m)"
  by (auto simp: json_error_def json_ok_def)

lemma json_error_eq_express [simp]:
  "json_error c m \<noteq> express_default_error" "express_default_error \<noteq> json_error c m"
  by (auto simp: json_error_def express_default_error_def)

lemma json_ok_eq_express [simp]:
  "json_ok p \<noteq> express_default_error" "express_default_error \<noteq> json_ok p"
  by (auto simp: json_ok_def express_default_error_def)

lemma json_ok_eq [simp]: "(json_ok p = json_ok q) = (p = q)"
  by (auto simp: json_ok_def)

lemma hex_pad_numeral:
  "hex_pad (numeral n) v = hex_pad (pred_numeral n) (v div 16) @ [hexchar (v mod 16)]"
proof -
  have "hex_pad (Suc (pred_numeral n)) v
        = hex_pad (pred_numeral n) (v div 16) @ [hexchar (v mod 16)]"
    by (rule hex_pad.simps(2))
  then show ?thesis
    by (simp only: numeral_eq_Suc [symmetric])
qed

lemma randomHex_1: "randomHex 1 = ''00000000000000000000000000000001''"
  by (simp add: randomHex_def hexchar_def hex_pad_numeral)

lemma randomHex_2: "randomHex 2 = ''00000000000000000000000000000002''"
  by (simp add: randomHex_def hexchar_def hex_pad_numeral)

section \<open>Field validation\<close>

lemma register_f_400:
  "(status (fst (register_f K e st b)) = 400) =
     (\<not> truthy (b ''username'') \<or> \<not> truthy (b ''publicKeyPem''))"
  by (auto simp: register_f_def Let_def writeJson_def split: prod.splits)

lemma register_m_400:
  "(status (fst (register_m M e st b)) = 400) =
     (\<not> truthy (b ''username'') \<or> \<not> truthy (b ''publicKeyPem''))"
  by (auto simp: register_m_def Let_def split: promise.splits option.splits)

lemma send_f_missing:
  "(fst (send_f K e st b h) = json_error 400 ''missing fields'') =
     (\<not> truthy (b ''from'') \<or> \<not> truthy (b ''to'') \<or> \<not> truthy (b ''ciphertext'')
         \<or> \<not> truthy (b ''encryptedKey'') \<or> \<not> truthy (b ''iv''))"
  by (auto simp: send_f_def Let_def writeJson_def split: prod.splits)

lemma send_m_missing:
  "(fst (send_m M e st b h) = json_error 400 ''missing fields'') =
     (\<not> truthy (b ''from'') \<or> \<not> truthy (b ''to'') \<or> \<not> truthy (b ''ciphertext'')
         \<or> \<not> truthy (b ''encryptedKey'') \<or> \<not> truthy (b ''iv''))"
  by (auto simp: send_m_def Let_def internal_error_def split: promise.splits option.splits)

text \<open>
  Claim C10. The handlers test their body fields with \<^verbatim>\<open>!field\<close> only. Registration
  answers 400 exactly when \<^verbatim>\<open>username\<close> or \<^verbatim>\<open>publicKeyPem\<close> is falsy (absent, null,
  the empty string, 0 or false), and sending answers 400 \<^verbatim>\<open>missing fields\<close> exactly when
  one of its five fields is falsy, in both servers. No test looks at the type of a value:
  a registration whose \<^verbatim>\<open>publicKeyPem\<close> is the number 7 passes validation, is answered
  with a token, and the flat-file server stores the number as the user's key.
\<close>

theorem field_validation_is_truthiness:
  "((status (fst (register_f K e sf b)) = 400) =
      (\<not> truthy (b ''username'') \<or> \<not> truthy (b ''publicKeyPem'')))
   \<and> ((status (fst (register_m M e sm b)) = 400) =
      (\<not> truthy (b ''username'') \<or> \<not> truthy (b ''publicKeyPem'')))
   \<and> ((fst (send_f K e sf b h) = json_error 400 ''missing fields'') =
      (\<not> truthy (b ''from'') \<or> \<not> truthy (b ''to'') \<or> \<not> truthy (b ''ciphertext'')
         \<or> \<not> truthy (b ''encryptedKey'') \<or> \<not> truthy (b ''iv'')))
   \<and> ((fst (send_m M e sm b h) = json_error 400 ''missing fields'') =
      (\<not> truthy (b ''from'') \<or> \<not> truthy (b ''to'') \<or> \<not> truthy (b ''ciphertext'')
         \<or> \<not> truthy (b ''encryptedKey'') \<or> \<not> truthy (b ''iv'')))
   \<and> (\<exists>b' e' st'. b' ''publicKeyPem'' = Some (JNum 7)
          \<and> register_f K e' init_f b' = (json_ok (TokenBody (randomHex (rnd e'))), st')
          \<and> stored_users_f st' =
               [(''alice'', \<lparr>publicKeyPem = JNum 7, token = randomHex (rnd e'),
                              createdAt = now e'\<rparr>)])"
proof -
  let ?b = "[''username'' \<mapsto> JStr ''alice'', ''publicKeyPem'' \<mapsto> JNum 7]"
  let ?st = "\<lparr>users_file = Content [(''alice'', \<lparr>publicKeyPem = JNum 7,
                 token = randomHex (rnd env0), createdAt = now env0\<rparr>)], msg_file = Absent\<rparr>"
  have "register_f K env0 init_f ?b = (json_ok (TokenBody (randomHex (rnd env0))), ?st)"
    by (simp add: register_f_def init_f_def env0_def readJson_def writeJson_def js_set_def
        toPropertyKey_def Let_def)
  moreover have "stored_users_f ?st = [(''alice'', \<lparr>publicKeyPem = JNum 7,
                 token = randomHex (rnd env0), createdAt = now env0\<rparr>)]"
    by (simp add: stored_users_f_def)
  moreover have "?b ''publicKeyPem'' = Some (JNum 7)"
    by simp
  ultimately have "\<exists>b' e' st'. b' ''publicKeyPem'' = Some (JNum 7)
          \<and> register_f K e' init_f b' = (json_ok (TokenBody (randomHex (rnd e'))), st')
          \<and> stored_users_f st' =
               [(''alice'', \<lparr>publicKeyPem = JNum 7, token = randomHex (rnd e'),
                              createdAt = now e'\<rparr>)]"
    by blast
  then show ?thesis
    using register_f_400 [of K e sf b] register_m_400 [of M e sm b]
      send_f_missing [of K e sf b h] send_m_missing [of M e sm b h]
    by blast
qed

theorem field_validation_is_truthiness_witness:
  "status (fst (register_f K0 env0 init_f
       [''username'' \<mapsto> JStr ''alice'', ''publicKeyPem'' \<mapsto> JObj []])) \<noteq> 400
   \<and> fst (send_m M0 env0 init_m
       [''from'' \<mapsto> JStr ''alice'', ''to'' \<mapsto> JStr ''bob'', ''ciphertext'' \<mapsto> JNum 0,
        ''encryptedKey'' \<mapsto> JStr ''k'', ''iv'' \<mapsto> JStr ''i''] None)
     = json_error 400 ''missing fields''"
  using field_validation_is_truthiness [of K0 env0 init_f
      "[''username'' \<mapsto> JStr ''alice'', ''publicKeyPem'' \<mapsto> JObj []]" M0 init_m None]
    field_validation_is_truthiness [of K0 env0 init_f
      "[''from'' \<mapsto> JStr ''alice'', ''to'' \<mapsto> JStr ''bob'', ''ciphertext'' \<mapsto> JNum 0,
        ''encryptedKey'' \<mapsto> JStr ''k'', ''iv'' \<mapsto> JStr ''i'']" M0 init_m None]
  by simp

section \<open>Store failure\<close>

lemma User_findOne_fault: "db_fault e = Some k \<Longrightarrow> User_findOne M e k st v = Rejected"
  by (simp add: User_findOne_def)

lemma User_findOne_no_fault:
  "db_fault e \<noteq> Some k \<Longrightarrow>
   User_findOne M e k st v = User_findOne M (e\<lparr>db_fault := None\<rparr>) k st v"
  by (simp add: User_findOne_def)

lemma User_save_fault: "db_fault e = Some k \<Longrightarrow> User_save e k st d = Rejected"
  by (simp add: User_save_def split: option.splits)

lemma Message_save_fault: "db_fault e = Some k \<Longrightarrow> Message_save e k st d = Rejected"
  by (simp add: Message_save_def split: option.splits)

lemma Message_find_fault: "db_fault e = Some k \<Longrightarrow> Message_find M e k st u = Rejected"
  by (simp add: Message_find_def)

lemma User_find_fault: "db_fault e = Some k \<Longrightarrow> User_find e k st = Rejected"
  by (simp add: User_find_def)

lemma db_fault_register_m:
  assumes "db_fault e = Some k" and "k < db_operations M e st (Register b)"
  shows "register_m M e st b = (internal_error, st)"
proof (cases "k = 0")
  case True
  with assms show ?thesis
    by (auto simp: db_operations_def register_m_def User_findOne_fault Let_def
        split: if_splits)
next
  case False
  with assms have k: "k = 1"
    and found: "User_findOne M (e\<lparr>db_fault := None\<rparr>) 0 st (the (b ''username''))
                  = Resolved None"
    and valid: "truthy (b ''username'')" "truthy (b ''publicKeyPem'')"
    by (auto simp: db_operations_def Let_def split: if_splits promise.splits option.splits)
  from assms(1) k have "User_findOne M e 0 st (the (b ''username'')) = Resolved None"
    using User_findOne_no_fault [of e 0 M st] found by simp
  with assms(1) k valid show ?thesis
    by (simp add: register_m_def User_save_fault Let_def)
qed

lemma db_fault_publicKey_m:
  "db_fault e = Some k \<Longrightarrow> k < db_operations M e st (PublicKey u) \<Longrightarrow>
   publicKey_m M e st u = (internal_error, st)"
  by (simp add: db_operations_def publicKey_m_def User_findOne_fault)

lemma db_fault_send_m:
  assumes "db_fault e = Some k" and "k < db_operations M e st (Send b h)"
  shows "send_m M e st b h = (internal_error, st)"
proof (cases "k = 0")
  case True
  with assms show ?thesis
    by (auto simp: db_operations_def send_m_def User_findOne_fault Let_def
        split: if_splits)
next
  case False
  with assms obtain user where k: "k = 1"
    and found: "User_findOne M (e\<lparr>db_fault := None\<rparr>) 0 st (the (b ''from''))
                  = Resolved (Some user)"
    and auth: "truthy_header h" "h = Some (doc_token user)"
    and valid: "truthy (b ''from'')" "truthy (b ''to'')" "truthy (b ''ciphertext'')"
      "truthy (b ''encryptedKey'')" "truthy (b ''iv'')"
    by (auto simp: db_operations_def Let_def split: if_splits promise.splits option.splits)
  from assms(1) k have "User_findOne M e 0 st (the (b ''from'')) = Resolved (Some user)"
    using User_findOne_no_fault [of e 0 M st] found by simp
  with assms(1) k valid auth show ?thesis
    by (simp add: send_m_def Message_save_fault Let_def)
qed

lemma db_fault_messages_m:
  assumes "db_fault e = Some k" and "k < db_operations M e st (Messages u h)"
  shows "messages_m M e st u h = (internal_error, st)"
proof (cases "k = 0")
  case True
  with assms show ?thesis
    by (simp add: messages_m_def User_findOne_fault)
next
  case False
  with assms obtain user where k: "k = 1"
    and found: "User_findOne M (e\<lparr>db_fault := None\<rparr>) 0 st (JStr u) = Resolved (Some user)"
    and auth: "truthy_header h" "h = Some (doc_token user)"
    by (auto simp: db_operations_def Let_def split: if_splits promise.splits option.splits)
  from assms(1) k have "User_findOne M e 0 st (JStr u) = Resolved (Some user)"
    using User_findOne_no_fault [of e 0 M st] found by simp
  with assms(1) k auth show ?thesis
    by (simp add: messages_m_def Message_find_fault)
qed

lemma db_fault_users_m:
  "db_fault e = Some k \<Longrightarrow> k < db_operations M e st Users \<Longrightarrow>
   users_m e st = (internal_error, st)"
  by (simp add: db_operations_def users_m_def User_find_fault)

lemma db_fault_step_m:
  "db_fault e = Some k \<Longrightarrow> k < db_operations M e st req \<Longrightarrow>
   step_m M e st req = (internal_error, st)"
  by (cases req)
    (simp_all add: db_fault_register_m db_fault_publicKey_m db_fault_send_m
      db_fault_messages_m db_fault_users_m)

lemma readJson_Unreadable [simp]: "readJson e Unreadable d = (d, Unreadable)"
  by (simp add: readJson_def)

lemma readJson_Content [simp]: "readJson e (Content x) d = (x, Content x)"
  by (simp add: readJson_def)

lemma unreadable_users_register_f:
  "fst (register_f K e (st\<lparr>users_file := Unreadable\<rparr>) b)
   = fst (register_f K e (st\<lparr>users_file := Content []\<rparr>) b)"
  by (simp add: register_f_def writeJson_def Let_def)

lemma unreadable_users_publicKey_f:
  "fst (publicKey_f e (st\<lparr>users_file := Unreadable\<rparr>) u)
   = fst (publicKey_f e (st\<lparr>users_file := Content []\<rparr>) u)"
  by (simp add: publicKey_f_def Let_def)

lemma unreadable_users_send_f:
  "fst (send_f K e (st\<lparr>users_file := Unreadable\<rparr>) b h)
   = fst (send_f K e (st\<lparr>users_file := Content []\<rparr>) b h)"
  by (auto simp: send_f_def writeJson_def Let_def case_prod_beta)

lemma unreadable_users_messages_f:
  "fst (messages_f e (st\<lparr>users_file := Unreadable\<rparr>) u h)
   = fst (messages_f e (st\<lparr>users_file := Content []\<rparr>) u h)"
  by (auto simp: messages_f_def Let_def case_prod_beta)

lemma unreadable_users_users_f:
  "fst (users_f e (st\<lparr>users_file := Unreadable\<rparr>))
   = fst (users_f e (st\<lparr>users_file := Content []\<rparr>))"
  by (simp add: users_f_def)

lemma unreadable_users_step_f:
  "fst (step_f K e (st\<lparr>users_file := Unreadable\<rparr>) req)
   = fst (step_f K e (st\<lparr>users_file := Content []\<rparr>) req)"
  by (cases req)
    (simp_all add: unreadable_users_register_f unreadable_users_publicKey_f
      unreadable_users_send_f unreadable_users_messages_f unreadable_users_users_f)

lemma unreadable_messages_send_f:
  "fst (send_f K e (st\<lparr>msg_file := Unreadable\<rparr>) b h)
   = fst (send_f K e (st\<lparr>msg_file := Content []\<rparr>) b h)"
  by (auto simp: send_f_def writeJson_def Let_def case_prod_beta)

lemma unreadable_messages_messages_f:
  "fst (messages_f e (st\<lparr>msg_file := Unreadable\<rparr>) u h)
   = fst (messages_f e (st\<lparr>msg_file := Content []\<rparr>) u h)"
  by (auto simp: messages_f_def Let_def case_prod_beta)

lemma unreadable_messages_step_f:
  "fst (step_f K e (st\<lparr>msg_file := Unreadable\<rparr>) req)
   = fst (step_f K e (st\<lparr>msg_file := Content []\<rparr>) req)"
  by (cases req)
    (simp_all add: unreadable_messages_send_f unreadable_messages_messages_f
      register_f_def publicKey_f_def users_f_def writeJson_def Let_def case_prod_beta)

lemma failed_write_step_f:
  assumes "\<not> disk_ok e" and "writes_f K e st req"
  shows "fst (step_f K e st req) = express_default_error"
proof (cases req)
  case (Register b)
  with assms show ?thesis
    by (simp add: writes_f_def register_f_def writeJson_def Let_def case_prod_beta)
next
  case (Send b h)
  let ?user = "js_get (fst (readJson e (users_file st) [])) (toPropertyKey K (the (b ''from'')))"
  from assms Send have valid: "truthy (b ''from'')" "truthy (b ''to'')"
    "truthy (b ''ciphertext'')" "truthy (b ''encryptedKey'')" "truthy (b ''iv'')"
    and user: "?user \<noteq> Undefined" and auth: "truthy_header h" "h = prop_token ?user"
    by (auto simp: writes_f_def split: propval.splits)
  with assms(1) Send show ?thesis
    by (auto simp: send_f_def writeJson_def Let_def case_prod_beta)
qed (use assms in \<open>simp_all add: writes_f_def\<close>)

text \<open>
  The claim C8 as stated fails on the flat-file server: with \<^verbatim>\<open>users.json\<close> unreadable,
  GET /api/users is answered with status 200 and an empty list.
\<close>

theorem unreadable_store_answered_ok:
  "status (fst (step_f K0 env0 corrupt_f Users)) = 200
   \<and> payload (fst (step_f K0 env0 corrupt_f Users)) = UsersBody []"
  by (simp add: corrupt_f_def users_f_def object_keys_def json_ok_def)

text \<open>
  Claim C8, amended. In the database server a request during which a database operation
  fails is answered with status 500 and the JSON body \<^verbatim>\<open>{error: 'internal error'}\<close>, and
  the store is unchanged. In the flat-file server a file that cannot be read or parsed is
  read as the empty default: the response is the one an empty file gives, not a 500. A
  failing write lets the exception leave the handler, which Express answers with status
  500 and its default error page, not a JSON body.
\<close>

theorem store_failure_responses:
  "(db_fault e = Some k \<and> k < db_operations M e sm req \<longrightarrow>
      step_m M e sm req = (json_error 500 ''internal error'', sm))
   \<and> fst (step_f K e (sf\<lparr>users_file := Unreadable\<rparr>) req)
       = fst (step_f K e (sf\<lparr>users_file := Content []\<rparr>) req)
   \<and> fst (step_f K e (sf\<lparr>msg_file := Unreadable\<rparr>) req)
       = fst (step_f K e (sf\<lparr>msg_file := Content []\<rparr>) req)
   \<and> (\<not> disk_ok e \<and> writes_f K e sf req \<longrightarrow>
        fst (step_f K e sf req) = express_default_error)"
  using db_fault_step_m [of e k M sm req] unreadable_users_step_f [of K e sf req]
    unreadable_messages_step_f [of K e sf req] failed_write_step_f [of e K sf req]
  by (simp add: internal_error_def)

theorem store_failure_responses_witness:
  "step_m M0 env_down init_m Users = (json_error 500 ''internal error'', init_m)
   \<and> fst (step_f K0 env_down (init_f\<lparr>users_file := Unreadable\<rparr>) Users) = json_ok (UsersBody [])"
  using store_failure_responses [of env_down 0 M0 init_m Users K0 init_f]
  by (simp add: env_down_def db_operations_def users_f_def object_keys_def)

section \<open>Registering a username twice\<close>

text \<open>
  Claim C1 holds for the database server (lemma \<open>register_m_idempotent\<close> below) and fails
  for the flat-file server, whose handler never looks for an existing user: registering
  \<^verbatim>\<open>alice\<close> twice returns two tokens and replaces the stored record, so the first token
  and the first key are lost.
\<close>

theorem register_f_replaces_user:
  "run_f K0 init_f [(env0, Register (reg_body ''alice'' ''K1'')),
                    (env1, Register (reg_body ''alice'' ''K2''))]
     = [json_ok (TokenBody ''00000000000000000000000000000001''),
        json_ok (TokenBody ''00000000000000000000000000000002'')]
   \<and> stored_users_f (exec_f K0 init_f [(env0, Register (reg_body ''alice'' ''K1''))])
     = [(''alice'', \<lparr>publicKeyPem = JStr ''K1'',
                     token = ''00000000000000000000000000000001'', createdAt = 10\<rparr>)]
   \<and> stored_users_f (exec_f K0 init_f [(env0, Register (reg_body ''alice'' ''K1'')),
                                        (env1, Register (reg_body ''alice'' ''K2''))])
     = [(''alice'', \<lparr>publicKeyPem = JStr ''K2'',
                     token = ''00000000000000000000000000000002'', createdAt = 20\<rparr>)]"
  by (simp add: init_f_def env0_def env1_def reg_body_def register_f_def readJson_def
      writeJson_def js_set_def toPropertyKey_def stored_users_f_def Let_def
      randomHex_1 randomHex_2)

theorem register_f_replaces_user_witness:
  "map payload (run_f K0 init_f [(env0, Register (reg_body ''alice'' ''K1'')),
                    (env1, Register (reg_body ''alice'' ''K2''))])
     = [TokenBody ''00000000000000000000000000000001'',
        TokenBody ''00000000000000000000000000000002'']"
  using register_f_replaces_user by (simp add: json_ok_def)

section \<open>Senders that are not users\<close>

text \<open>
  Claim C4 holds for the database server and, in the flat-file server, for every sender
  name but the property names of \<^verbatim>\<open>Object.prototype\<close> (lemmas \<open>send_m_unknown_sender\<close>
  and \<open>send_f_unknown_sender\<close> below). For those names \<^verbatim>\<open>users[from]\<close> is an inherited
  property, which is truthy, so line 55 does not answer 400; \<^verbatim>\<open>user.token\<close> is
  \<^verbatim>\<open>undefined\<close> and line 58 answers 401 whatever the credential. With no user
  registered at all, a message from \<^verbatim>\<open>constructor\<close> gets status 401.
\<close>

theorem send_f_inherited_sender:
  "send_f K0 env0 init_f (send_body ''constructor'' ''bob'' ''c'') (Some ''x'')
     = (json_error 401 ''invalid api key'', \<lparr>users_file = Content [], msg_file = Absent\<rparr>)"
  by (simp add: init_f_def env0_def send_body_def send_f_def readJson_def js_get_def
      object_prototype_names_def toPropertyKey_def truthy_header_def Let_def)

theorem send_f_inherited_sender_witness:
  "status (fst (send_f K0 env0 init_f (send_body ''constructor'' ''bob'' ''c'') (Some ''x''))) = 401"
  using send_f_inherited_sender by simp

section \<open>The handlers in terms of the stored data\<close>

lemma fst_readJson_users [simp]: "fst (readJson e (users_file st) []) = stored_users_f st"
  by (simp add: readJson_def stored_users_f_def split: jsonfile.splits)

lemma fst_readJson_messages [simp]: "fst (readJson e (msg_file st) []) = stored_messages_f st"
  by (simp add: readJson_def stored_messages_f_def split: jsonfile.splits)

lemma stored_users_read [simp]:
  "users_file st' = users_file st \<Longrightarrow>
   stored_users_f (st'\<lparr>users_file := snd (readJson e (users_file st) [])\<rparr>) = stored_users_f st"
  by (simp add: readJson_def stored_users_f_def split: jsonfile.splits)

lemma stored_messages_read [simp]:
  "msg_file st' = msg_file st \<Longrightarrow>
   stored_messages_f (st'\<lparr>msg_file := snd (readJson e (msg_file st) [])\<rparr>)
   = stored_messages_f st"
  by (simp add: readJson_def stored_messages_f_def split: jsonfile.splits)

lemma stored_users_msg_file [simp]: "stored_users_f (st\<lparr>msg_file := f\<rparr>) = stored_users_f st"
  by (simp add: stored_users_f_def)

lemma stored_messages_users_file [simp]:
  "stored_messages_f (st\<lparr>users_file := f\<rparr>) = stored_messages_f st"
  by (simp add: stored_messages_f_def)

lemma stored_users_Content [simp]: "stored_users_f (st\<lparr>users_file := Content us\<rparr>) = us"
  by (simp add: stored_users_f_def)

lemma stored_messages_Content [simp]: "stored_messages_f (st\<lparr>msg_file := Content ms\<rparr>) = ms"
  by (simp add: stored_messages_f_def)

lemma read_Content_users:
  "users_file st = Content us \<Longrightarrow> st\<lparr>users_file := snd (readJson e (users_file st) [])\<rparr> = st"
  by simp

lemma valid_sendE:
  assumes "valid_send b"
  obtains f t c ek i where "b ''from'' = Some (JStr f)" "f \<noteq> []"
    "b ''to'' = Some (JStr t)" "t \<noteq> []" "b ''ciphertext'' = Some (JStr c)" "c \<noteq> []"
    "b ''encryptedKey'' = Some (JStr ek)" "ek \<noteq> []" "b ''iv'' = Some (JStr i)" "i \<noteq> []"
  using assms
  by (auto simp: valid_send_def nonempty_string_def split: option.splits json.splits)

lemma valid_send_truthy:
  assumes "valid_send b"
  shows "truthy (b ''from'')" "truthy (b ''to'')" "truthy (b ''ciphertext'')"
    "truthy (b ''encryptedKey'')" "truthy (b ''iv'')"
  using assms by (auto elim!: valid_sendE)

lemma valid_send_from: "valid_send b \<Longrightarrow> the (b ''from'') = JStr (str (b ''from''))"
  by (auto elim!: valid_sendE simp: str_def)

lemma valid_send_key: "valid_send b \<Longrightarrow> toPropertyKey K (the (b ''from'')) = str (b ''from'')"
  by (auto elim!: valid_sendE simp: str_def toPropertyKey_def)

lemma new_Message_valid: "valid_send b \<Longrightarrow> new_Message M e b = Some (doc_of b e)"
  by (erule valid_sendE) (simp add: new_Message_def doc_of_def cast_def str_def)

lemma lean_doc_of:
  "valid_send b \<Longrightarrow> lean (doc_of b e) = (message_of b e)\<lparr>msg_id := Some (objectId (oid e))\<rparr>"
  by (erule valid_sendE) (simp add: lean_def doc_of_def message_of_def str_def)

text \<open>The send handler of the flat-file server, once the fields are valid strings.\<close>

lemma send_f_valid:
  assumes "valid_send b"
  shows "send_f K e st b h =
     (let st1 = st\<lparr>users_file := snd (readJson e (users_file st) [])\<rparr>;
          user = js_get (stored_users_f st) (str (b ''from''))
      in if user = Undefined then (json_error 400 ''unknown sender'', st1)
         else if \<not> truthy_header h \<or> h \<noteq> prop_token user
         then (json_error 401 ''invalid api key'', st1)
         else if disk_ok e
         then (json_ok OkBody,
               st1\<lparr>msg_file := Content (stored_messages_f st @ [message_of b e])\<rparr>)
         else (express_default_error,
               st1\<lparr>msg_file := snd (readJson e (msg_file st) [])\<rparr>))"
  using valid_send_truthy [OF assms] valid_send_key [OF assms, of K]
  by (auto simp: send_f_def writeJson_def Let_def case_prod_beta)

lemma messages_f_normal:
  "messages_f e st u h =
     (let st1 = st\<lparr>users_file := snd (readJson e (users_file st) [])\<rparr>;
          user = js_get (stored_users_f st) u
      in if user = Undefined then (json_error 404 ''unknown user'', st1)
         else if \<not> truthy_header h \<or> h \<noteq> prop_token user
         then (json_error 401 ''invalid api key'', st1)
         else (json_ok (MessagesBody (filter (\<lambda>m. msg_to m = JStr u) (stored_messages_f st))),
               st1\<lparr>msg_file := snd (readJson e (msg_file st) [])\<rparr>))"
  by (auto simp: messages_f_def Let_def case_prod_beta)

lemma send_m_valid:
  assumes "valid_send b" and "db_fault e = None"
  shows "send_m M e st b h =
     (case find (\<lambda>u. username u = str (b ''from'')) (user_coll st) of
        None \<Rightarrow> (json_error 400 ''unknown sender'', st)
      | Some user \<Rightarrow>
          if \<not> truthy_header h \<or> h \<noteq> Some (doc_token user)
          then (json_error 401 ''invalid api key'', st)
          else (json_ok OkBody, st\<lparr>message_coll := message_coll st @ [doc_of b e]\<rparr>))"
  using valid_send_truthy [OF assms(1)] valid_send_from [OF assms(1)] assms(2)
  by (auto simp: send_m_def User_findOne_def Message_save_def new_Message_valid [OF assms(1)]
      Let_def split: option.splits)

lemma messages_m_normal:
  assumes "db_fault e = None"
  shows "messages_m M e st u h =
     (case find (\<lambda>d. username d = u) (user_coll st) of
        None \<Rightarrow> (json_error 404 ''unknown user'', st)
      | Some user \<Rightarrow>
          if \<not> truthy_header h \<or> h \<noteq> Some (doc_token user)
          then (json_error 401 ''invalid api key'', st)
          else (json_ok (MessagesBody (map lean (sort_timestamp M
                   (filter (\<lambda>d. doc_to d = u) (message_coll st))))), st))"
  using assms
  by (auto simp: messages_m_def User_findOne_def Message_find_def split: option.splits)

lemma register_f_normal:
  "register_f K e st b =
     (if \<not> truthy (b ''username'') \<or> \<not> truthy (b ''publicKeyPem'')
      then (json_error 400 ''username and publicKeyPem required'', st)
      else if disk_ok e
      then (json_ok (TokenBody (randomHex (rnd e))),
            st\<lparr>users_file := Content (js_set (stored_users_f st)
               (toPropertyKey K (the (b ''username'')))
               \<lparr>publicKeyPem = the (b ''publicKeyPem''), token = randomHex (rnd e),
                createdAt = now e\<rparr>)\<rparr>)
      else (express_default_error, st\<lparr>users_file := snd (readJson e (users_file st) [])\<rparr>))"
  by (simp add: register_f_def writeJson_def Let_def case_prod_beta)

lemma publicKey_f_normal:
  "publicKey_f e st u =
     (let st1 = st\<lparr>users_file := snd (readJson e (users_file st) [])\<rparr>;
          user = js_get (stored_users_f st) u
      in if user = Undefined then (json_error 404 ''user not found'', st1)
         else (json_ok (PublicKeyBody (prop_publicKeyPem user)), st1))"
  by (simp add: publicKey_f_def Let_def case_prod_beta)

lemma send_f_normal:
  "send_f K e st b h =
     (if \<not> truthy (b ''from'') \<or> \<not> truthy (b ''to'') \<or> \<not> truthy (b ''ciphertext'')
         \<or> \<not> truthy (b ''encryptedKey'') \<or> \<not> truthy (b ''iv'')
      then (json_error 400 ''missing fields'', st)
      else
        let st1 = st\<lparr>users_file := snd (readJson e (users_file st) [])\<rparr>;
            user = js_get (stored_users_f st) (toPropertyKey K (the (b ''from'')))
        in if user = Undefined then (json_error 400 ''unknown sender'', st1)
           else if \<not> truthy_header h \<or> h \<noteq> prop_token user
           then (json_error 401 ''invalid api key'', st1)
           else if disk_ok e
           then (json_ok OkBody,
                 st1\<lparr>msg_file := Content (stored_messages_f st @ [message_of b e])\<rparr>)
           else (express_default_error,
                 st1\<lparr>msg_file := snd (readJson e (msg_file st) [])\<rparr>))"
  by (auto simp: send_f_def writeJson_def Let_def case_prod_beta)

lemma users_f_normal:
  "users_f e st =
     (json_ok (UsersBody (object_keys (stored_users_f st))),
      st\<lparr>users_file := snd (readJson e (users_file st) [])\<rparr>)"
  by (simp add: users_f_def case_prod_beta)

subsection \<open>What a request changes in the store\<close>

lemma stored_users_step_f:
  "stored_users_f (snd (step_f K e st req)) =
     (case req of
        Register b \<Rightarrow>
          if truthy (b ''username'') \<and> truthy (b ''publicKeyPem'') \<and> disk_ok e
          then js_set (stored_users_f st) (toPropertyKey K (the (b ''username'')))
                 \<lparr>publicKeyPem = the (b ''publicKeyPem''), token = randomHex (rnd e),
                  createdAt = now e\<rparr>
          else stored_users_f st
      | _ \<Rightarrow> stored_users_f st)"
  by (cases req)
    (auto simp: register_f_normal publicKey_f_normal send_f_normal messages_f_normal
      users_f_normal Let_def)

lemma stored_messages_step_f:
  "stored_messages_f (snd (step_f K e st req)) =
     (case req of
        Send b h \<Rightarrow>
          if fst (send_f K e st b h) = json_ok OkBody
          then stored_messages_f st @ [message_of b e]
          else stored_messages_f st
      | _ \<Rightarrow> stored_messages_f st)"
  by (cases req)
    (auto simp: register_f_normal publicKey_f_normal send_f_normal messages_f_normal
      users_f_normal Let_def)

lemma list_all_update:
  "list_all P al \<Longrightarrow> P (k, v) \<Longrightarrow> list_all P (AList.update k v al)"
  by (induction al) auto

lemma wf_f_step: "wf_f st \<Longrightarrow> wf_f (snd (step_f K e st req))"
  unfolding wf_f_def stored_users_step_f
  by (cases req) (auto simp: js_set_def length_randomHex intro!: list_all_update)

lemma wf_f_init: "wf_f init_f"
  by (simp add: wf_f_def init_f_def stored_users_f_def)

lemma wf_f_exec: "wf_f st \<Longrightarrow> wf_f (exec_f K st rs)"
  by (induction rs arbitrary: st) (auto simp: wf_f_step)

lemma wf_f_token:
  "wf_f st \<Longrightarrow> map_of (stored_users_f st) name = Some r \<Longrightarrow> token r \<noteq> []"
  by (auto simp: wf_f_def list_all_iff dest!: map_of_SomeD)

lemma user_coll_step_m:
  "user_coll (snd (step_m M e st req)) = user_coll st
   \<or> (\<exists>d. user_coll (snd (step_m M e st req)) = user_coll st @ [d]
          \<and> doc_token d = randomHex (rnd e)
          \<and> username d \<notin> set (map username (user_coll st)))"
  by (cases req)
    (auto simp: register_m_def publicKey_m_def send_m_def messages_m_def users_m_def
      User_save_def new_User_def Message_save_def Let_def
      split: promise.splits option.splits if_splits)

lemma message_coll_step_m:
  "message_coll (snd (step_m M e st req)) =
     (case req of
        Send b h \<Rightarrow>
          if fst (send_m M e st b h) = json_ok OkBody
          then message_coll st @ [the (new_Message M e b)]
          else message_coll st
      | _ \<Rightarrow> message_coll st)"
  by (cases req)
    (auto simp: register_m_def publicKey_m_def send_m_def messages_m_def users_m_def
      User_save_def Message_save_def internal_error_def Let_def
      split: promise.splits option.splits if_splits)

lemma wf_m_step: "wf_m st \<Longrightarrow> wf_m (snd (step_m M e st req))"
  using user_coll_step_m [of M e st req]
  by (auto simp: wf_m_def length_randomHex)

lemma wf_m_init: "wf_m init_m"
  by (simp add: wf_m_def init_m_def)

lemma wf_m_exec: "wf_m st \<Longrightarrow> wf_m (exec_m M st rs)"
  by (induction rs arbitrary: st) (auto simp: wf_m_step)

lemma find_Some_set: "find P xs = Some x \<Longrightarrow> x \<in> set xs \<and> P x"
  by (auto simp: find_Some_iff)

lemma wf_m_token:
  "wf_m st \<Longrightarrow> find (\<lambda>d. username d = name) (user_coll st) = Some u \<Longrightarrow> doc_token u \<noteq> []"
  by (auto simp: wf_m_def list_all_iff dest!: find_Some_set)

section \<open>The example stores\<close>

lemma wf_f_example: "wf_f sf_example"
  by (simp add: wf_f_def sf_example_def stored_users_f_def alice_rec_def bob_rec_def
      length_randomHex)

lemma wf_m_example: "wf_m sm_example"
  by (simp add: wf_m_def sm_example_def alice_doc_def bob_doc_def length_randomHex)

lemma alice_f: "map_of (stored_users_f sf_example) ''alice'' = Some alice_rec"
  by (simp add: sf_example_def stored_users_f_def)

lemma bob_f: "map_of (stored_users_f sf_example) ''bob'' = Some bob_rec"
  by (simp add: sf_example_def stored_users_f_def)

lemma alice_m: "find (\<lambda>d. username d = ''alice'') (user_coll sm_example) = Some alice_doc"
  by (simp add: sm_example_def alice_doc_def)

lemma bob_m: "find (\<lambda>d. username d = ''bob'') (user_coll sm_example) = Some bob_doc"
  by (simp add: sm_example_def alice_doc_def bob_doc_def)

lemma valid_send_body: "f \<noteq> [] \<Longrightarrow> t \<noteq> [] \<Longrightarrow> c \<noteq> [] \<Longrightarrow> valid_send (send_body f t c)"
  by (simp add: valid_send_def send_body_def nonempty_string_def)

lemma str_from_send_body [simp]: "str (send_body f t c ''from'') = f"
  by (simp add: send_body_def str_def)

lemma str_to_send_body [simp]: "str (send_body f t c ''to'') = t"
  by (simp add: send_body_def str_def)



lemma registered_users_file:
  "map_of (stored_users_f st) k = Some r \<Longrightarrow>
   st\<lparr>users_file := snd (readJson e (users_file st) [])\<rparr> = st"
  by (cases "users_file st") (auto simp: stored_users_f_def)

lemma js_get_Own: "map_of us k = Some r \<Longrightarrow> js_get us k = Own r"
  by (simp add: js_get_def)

section \<open>The credential check\<close>

lemma auth_send_f:
  assumes "valid_send b" and "wf_f st" and "map_of (stored_users_f st) (str (b ''from'')) = Some r"
  shows "(status (fst (send_f K e st b h)) = 401) = (h \<noteq> Some (token r))"
    and "h \<noteq> Some (token r) \<Longrightarrow> send_f K e st b h = (json_error 401 ''invalid api key'', st)"
  using wf_f_token [OF assms(2,3)] registered_users_file [OF assms(3), of e]
  by (auto simp: send_f_valid [OF assms(1)] js_get_Own [OF assms(3)] truthy_header_def)

lemma auth_messages_f:
  assumes "wf_f st" and "map_of (stored_users_f st) name = Some r"
  shows "(status (fst (messages_f e st name h)) = 401) = (h \<noteq> Some (token r))"
    and "h \<noteq> Some (token r) \<Longrightarrow>
         messages_f e st name h = (json_error 401 ''invalid api key'', st)"
  using wf_f_token [OF assms] registered_users_file [OF assms(2), of e]
  by (auto simp: messages_f_normal js_get_Own [OF assms(2)] truthy_header_def)

lemma auth_send_m:
  assumes "valid_send b" and "wf_m st" and "db_fault e = None"
    and "find (\<lambda>d. username d = str (b ''from'')) (user_coll st) = Some u"
  shows "(status (fst (send_m M e st b h)) = 401) = (h \<noteq> Some (doc_token u))"
    and "h \<noteq> Some (doc_token u) \<Longrightarrow>
         send_m M e st b h = (json_error 401 ''invalid api key'', st)"
  using wf_m_token [OF assms(2,4)]
  by (auto simp: send_m_valid [OF assms(1,3)] assms(4) truthy_header_def)

lemma auth_messages_m:
  assumes "wf_m st" and "db_fault e = None"
    and "find (\<lambda>d. username d = name) (user_coll st) = Some u"
  shows "(status (fst (messages_m M e st name h)) = 401) = (h \<noteq> Some (doc_token u))"
    and "h \<noteq> Some (doc_token u) \<Longrightarrow>
         messages_m M e st name h = (json_error 401 ''invalid api key'', st)"
  using wf_m_token [OF assms(1,3)]
  by (auto simp: messages_m_normal [OF assms(2)] assms(3) truthy_header_def)

text \<open>
  Claim C3. Let a user be registered with token \<open>T\<close> (in a store whose tokens are the
  32 characters registration generates, and with the database answering). A send with
  valid fields from that user, or a fetch of that user's messages, is answered with status
  401 exactly when the \<^verbatim>\<open>x-api-key\<close> header is not \<open>T\<close> (absent, empty or any other
  string), and then the store is unchanged; with the header equal to \<open>T\<close> the request
  passes the check. This holds in both servers.
\<close>

theorem auth_gate:
  assumes "valid_send b" and "str (b ''from'') = name"
    and "wf_f sf" and "map_of (stored_users_f sf) name = Some r"
    and "wf_m sm" and "find (\<lambda>d. username d = name) (user_coll sm) = Some u"
    and "db_fault e = None"
  shows "((status (fst (send_f K e sf b h)) = 401) = (h \<noteq> Some (token r)))
       \<and> (h \<noteq> Some (token r) \<longrightarrow>
            send_f K e sf b h = (json_error 401 ''invalid api key'', sf))
       \<and> ((status (fst (messages_f e sf name h)) = 401) = (h \<noteq> Some (token r)))
       \<and> (h \<noteq> Some (token r) \<longrightarrow>
            messages_f e sf name h = (json_error 401 ''invalid api key'', sf))
       \<and> ((status (fst (send_m M e sm b h)) = 401) = (h \<noteq> Some (doc_token u)))
       \<and> (h \<noteq> Some (doc_token u) \<longrightarrow>
            send_m M e sm b h = (json_error 401 ''invalid api key'', sm))
       \<and> ((status (fst (messages_m M e sm name h)) = 401) = (h \<noteq> Some (doc_token u)))
       \<and> (h \<noteq> Some (doc_token u) \<longrightarrow>
            messages_m M e sm name h = (json_error 401 ''invalid api key'', sm))"
proof -
  from assms(2,4) have rf: "map_of (stored_users_f sf) (str (b ''from'')) = Some r"
    by simp
  from assms(2,6) have rm: "find (\<lambda>d. username d = str (b ''from'')) (user_coll sm) = Some u"
    by simp
  show ?thesis
    using auth_send_f [OF assms(1,3) rf, where K = K and e = e and h = h]
      auth_messages_f [OF assms(3,4), where e = e and h = h]
      auth_send_m [OF assms(1,5,7) rm, where M = M and h = h]
      auth_messages_m [OF assms(5,7,6), where M = M and h = h]
    by blast
qed

theorem auth_gate_witness:
  "send_f K0 env3 sf_example (send_body ''alice'' ''bob'' ''c'') (Some [])
     = (json_error 401 ''invalid api key'', sf_example)
   \<and> messages_f env3 sf_example ''alice'' None = (json_error 401 ''invalid api key'', sf_example)
   \<and> status (fst (messages_f env3 sf_example ''alice'' (Some (randomHex 1)))) \<noteq> 401
   \<and> send_m M0 env3 sm_example (send_body ''alice'' ''bob'' ''c'') (Some ''guess'')
     = (json_error 401 ''invalid api key'', sm_example)
   \<and> status (fst (send_m M0 env3 sm_example (send_body ''alice'' ''bob'' ''c'')
                    (Some (randomHex 1)))) \<noteq> 401"
proof -
  have v: "valid_send (send_body ''alice'' ''bob'' ''c'')"
    by (simp add: valid_send_body)
  have n: "str (send_body ''alice'' ''bob'' ''c'' ''from'') = ''alice''"
    by simp
  have d: "db_fault env3 = None"
    by (simp add: env3_def)
  have t: "token alice_rec = randomHex 1" "doc_token alice_doc = randomHex 1"
    by (simp_all add: alice_rec_def alice_doc_def)
  have g: "''guess'' \<noteq> randomHex 1"
    by (simp add: randomHex_1)
  note gate = auth_gate [OF v n wf_f_example alice_f wf_m_example alice_m d]
  show ?thesis
    using gate [of K0 "Some []" M0] gate [of K0 None M0] gate [of K0 "Some (randomHex 1)" M0]
      gate [of K0 "Some ''guess''" M0] randomHex_nonempty [of 1] g
    by (simp add: t)
qed

section \<open>Sending\<close>

lemma send_f_accepts:
  assumes "valid_send b" and "wf_f st" and "map_of (stored_users_f st) (str (b ''from'')) = Some r"
    and "disk_ok e"
  shows "fst (send_f K e st b (Some (token r))) = json_ok OkBody"
    and "stored_messages_f (snd (send_f K e st b (Some (token r))))
         = stored_messages_f st @ [message_of b e]"
    and "stored_users_f (snd (send_f K e st b (Some (token r)))) = stored_users_f st"
  using wf_f_token [OF assms(2,3)] assms(4)
  by (auto simp: send_f_valid [OF assms(1)] js_get_Own [OF assms(3)] truthy_header_def)

lemma send_m_accepts:
  assumes "valid_send b" and "wf_m st" and "db_fault e = None"
    and "find (\<lambda>d. username d = str (b ''from'')) (user_coll st) = Some u"
  shows "send_m M e st b (Some (doc_token u))
         = (json_ok OkBody, st\<lparr>message_coll := message_coll st @ [doc_of b e]\<rparr>)"
  using wf_m_token [OF assms(2,4)]
  by (auto simp: send_m_valid [OF assms(1,3)] assms(4) truthy_header_def)



section \<open>Fetching\<close>

lemma fetch_f_exact:
  assumes "messages_f e st A h = (r, st')" and "status r = 200"
  shows "payload r = MessagesBody (filter (\<lambda>m. msg_to m = JStr A) (stored_messages_f st))"
  using assms
  by (auto simp: messages_f_normal Let_def json_error_def json_ok_def split: if_splits)

lemma fetch_m_exact:
  assumes "messages_m M e st A h = (r, st')" and "status r = 200"
  shows "payload r = MessagesBody (map lean (sort_timestamp M
           (filter (\<lambda>d. doc_to d = A) (message_coll st))))"
  using assms
  by (auto simp: messages_m_def Message_find_def json_error_def json_ok_def internal_error_def
      split: promise.splits option.splits if_splits)

lemma mset_sort_timestamp [simp]: "mset (sort_timestamp M ds) = mset ds"
  by (simp add: sort_timestamp_def)

lemma set_sort_timestamp [simp]: "set (sort_timestamp M ds) = set ds"
  by (simp add: sort_timestamp_def)

lemma sorted_sort_timestamp [simp]: "sorted (map doc_timestamp (sort_timestamp M ds))"
  by (simp add: sort_timestamp_def)




subsection \<open>Unknown senders in both servers\<close>

lemma send_m_unknown_sender:
  assumes "valid_send b" and "db_fault e = None"
    and "find (\<lambda>d. username d = str (b ''from'')) (user_coll st) = None"
  shows "send_m M e st b h = (json_error 400 ''unknown sender'', st)"
  by (simp add: send_m_valid [OF assms(1,2)] assms(3))

lemma send_f_unknown_sender:
  assumes "valid_send b" and "map_of (stored_users_f st) (str (b ''from'')) = None"
    and "str (b ''from'') \<notin> set object_prototype_names"
  shows "fst (send_f K e st b h) = json_error 400 ''unknown sender''"
    and "stored_messages_f (snd (send_f K e st b h)) = stored_messages_f st"
  using assms(2,3) by (simp_all add: send_f_valid [OF assms(1)] js_get_def)

lemma send_f_inherited_name:
  assumes "valid_send b" and "map_of (stored_users_f st) (str (b ''from'')) = None"
    and "str (b ''from'') \<in> set object_prototype_names"
  shows "fst (send_f K e st b h) = json_error 401 ''invalid api key''"
  using assms(2,3)
  by (cases h) (auto simp: send_f_valid [OF assms(1)] js_get_def truthy_header_def Let_def)

section \<open>Registration\<close>

lemma valid_registerE:
  assumes "valid_register b"
  obtains u p where "b ''username'' = Some (JStr u)" "u \<noteq> []"
    "b ''publicKeyPem'' = Some (JStr p)" "p \<noteq> []"
  using assms
  by (auto simp: valid_register_def nonempty_string_def split: option.splits json.splits)

lemma new_User_valid:
  "valid_register b \<Longrightarrow>
   new_User M e (the (b ''username'')) (the (b ''publicKeyPem'')) (randomHex (rnd e))
   = Some (user_of b e)"
  by (erule valid_registerE)
    (simp add: new_User_def user_of_def cast_def str_def randomHex_nonempty)

lemma find_username_None:
  "find (\<lambda>d. username d = u) ds = None \<Longrightarrow> u \<notin> set (map username ds)"
  by (auto simp: find_None_iff)

lemma register_m_valid:
  assumes "valid_register b" and "db_fault e = None"
  shows "register_m M e st b =
     (case find (\<lambda>d. username d = str (b ''username'')) (user_coll st) of
        Some existing \<Rightarrow> (json_ok (TokenBody (doc_token existing)), st)
      | None \<Rightarrow> (json_ok (TokenBody (randomHex (rnd e))),
                 st\<lparr>user_coll := user_coll st @ [user_of b e]\<rparr>))"
proof -
  from assms(1) obtain u p where b: "b ''username'' = Some (JStr u)" "u \<noteq> []"
    "b ''publicKeyPem'' = Some (JStr p)" "p \<noteq> []"
    by (rule valid_registerE)
  then have s: "str (b ''username'') = u"
    by (simp add: str_def)
  have n: "new_User M e (JStr u) (JStr p) (randomHex (rnd e)) = Some (user_of b e)"
    using new_User_valid [OF assms(1), of M e] b by simp
  show ?thesis
  proof (cases "find (\<lambda>d. username d = u) (user_coll st)")
    case None
    then have "u \<notin> set (map username (user_coll st))"
      by (rule find_username_None)
    moreover have "username (user_of b e) = u"
      using s by (simp add: user_of_def)
    ultimately show ?thesis
      using None b assms(2) n s
      by (simp add: register_m_def User_findOne_def User_save_def Let_def)
  next
    case (Some existing)
    then show ?thesis
      using b assms(2) s by (simp add: register_m_def User_findOne_def Let_def)
  qed
qed

lemma find_append_new:
  "find P xs = None \<Longrightarrow> P x \<Longrightarrow> find P (xs @ [x]) = Some x"
  by (induction xs) (auto split: if_splits)

lemma filter_username_new:
  "u \<notin> set (map username ds) \<Longrightarrow> username d = u \<Longrightarrow>
   filter (\<lambda>x. username x = u) (ds @ [d]) = [d]"
  by (induction ds) auto

lemma filter_username_distinct:
  "distinct (map username ds) \<Longrightarrow> find (\<lambda>x. username x = u) ds = Some d \<Longrightarrow>
   filter (\<lambda>x. username x = u) ds = [d]"
proof (induction ds)
  case Nil
  then show ?case by simp
next
  case (Cons a ds)
  show ?case
  proof (cases "username a = u")
    case True
    with Cons.prems have "a = d" and "u \<notin> set (map username ds)"
      by auto
    then have "filter (\<lambda>x. username x = u) ds = []"
      by (auto simp: filter_empty_conv)
    with True \<open>a = d\<close> show ?thesis
      by simp
  next
    case False
    with Cons show ?thesis
      by simp
  qed
qed

text \<open>
  In the database server registration is idempotent by username (claim C1 for
  \<^verbatim>\<open>src/server.js\<close>): a second registration of the username is answered with the token of
  the first, changes nothing, and the collection holds one document for the username.
\<close>

lemma register_m_idempotent:
  assumes "valid_register b1" and "valid_register b2"
    and "str (b2 ''username'') = str (b1 ''username'')"
    and "db_fault ea = None" and "db_fault eb = None"
    and "distinct (map username (user_coll st))"
    and "register_m M ea st b1 = (r1, st1)"
  shows "register_m M eb st1 b2 = (r1, st1)"
    and "length (filter (\<lambda>d. username d = str (b1 ''username'')) (user_coll st1)) = 1"
proof -
  let ?u = "str (b1 ''username'')"
  show "register_m M eb st1 b2 = (r1, st1)"
  proof (cases "find (\<lambda>d. username d = ?u) (user_coll st)")
    case None
    with assms(7) have r1: "r1 = json_ok (TokenBody (randomHex (rnd ea)))"
      and st1: "st1 = st\<lparr>user_coll := user_coll st @ [user_of b1 ea]\<rparr>"
      by (simp_all add: register_m_valid [OF assms(1,4)])
    have "find (\<lambda>d. username d = ?u) (user_coll st1) = Some (user_of b1 ea)"
      using None by (simp add: st1 find_append_new user_of_def)
    then show ?thesis
      by (simp add: register_m_valid [OF assms(2,5)] assms(3) r1 user_of_def)
  next
    case (Some existing)
    with assms(7) have "r1 = json_ok (TokenBody (doc_token existing))" and "st1 = st"
      by (simp_all add: register_m_valid [OF assms(1,4)])
    with Some show ?thesis
      by (simp add: register_m_valid [OF assms(2,5)] assms(3))
  qed
  show "length (filter (\<lambda>d. username d = ?u) (user_coll st1)) = 1"
  proof (cases "find (\<lambda>d. username d = ?u) (user_coll st)")
    case None
    with assms(7) have st1: "st1 = st\<lparr>user_coll := user_coll st @ [user_of b1 ea]\<rparr>"
      by (simp add: register_m_valid [OF assms(1,4)])
    have "filter (\<lambda>x. username x = ?u) (user_coll st @ [user_of b1 ea]) = [user_of b1 ea]"
      using find_username_None [OF None] by (intro filter_username_new) (simp_all add: user_of_def)
    then show ?thesis
      by (simp add: st1)
  next
    case (Some existing)
    with assms(7) have "st1 = st"
      by (simp add: register_m_valid [OF assms(1,4)])
    with Some assms(6) show ?thesis
      by (simp add: filter_username_distinct)
  qed
qed

text \<open>
  The flat-file server answers every valid registration with a fresh token and stores it,
  whatever the store holds.
\<close>

lemma register_f_fresh_token:
  assumes "truthy (b ''username'')" and "truthy (b ''publicKeyPem'')" and "disk_ok e"
  shows "fst (register_f K e st b) = json_ok (TokenBody (randomHex (rnd e)))"
  using assms by (simp add: register_f_normal)

section \<open>Runs\<close>



lemma run_f_append: "run_f K st (xs @ ys) = run_f K st xs @ run_f K (exec_f K st xs) ys"
  by (induction xs arbitrary: st) auto

lemma run_m_append: "run_m M st (xs @ ys) = run_m M st xs @ run_m M (exec_m M st xs) ys"
  by (induction xs arbitrary: st) auto

lemma length_run_f [simp]: "length (run_f K st rs) = length rs"
  by (induction rs arbitrary: st) auto

lemma length_run_m [simp]: "length (run_m M st rs) = length rs"
  by (induction rs arbitrary: st) auto



text \<open>The stored messages only grow.\<close>

lemma stored_messages_step_f_grows:
  "\<exists>ys. stored_messages_f (snd (step_f K e st req)) = stored_messages_f st @ ys
        \<and> (\<forall>m \<in> set ys. timestamp m = now e)"
  using stored_messages_step_f [of K e st req]
  by (cases req) (auto simp: message_of_def)

lemma stored_messages_exec_f_grows:
  "\<exists>ys. stored_messages_f (exec_f K st rs) = stored_messages_f st @ ys"
proof (induction rs arbitrary: st)
  case Nil
  then show ?case by simp
next
  case (Cons a rs)
  obtain e r where a: "a = (e, r)"
    by (cases a)
  obtain ys where 1: "stored_messages_f (snd (step_f K e st r)) = stored_messages_f st @ ys"
    using stored_messages_step_f_grows [of K e st r] by blast
  obtain zs where "stored_messages_f (exec_f K (snd (step_f K e st r)) rs)
                   = stored_messages_f (snd (step_f K e st r)) @ zs"
    using Cons.IH by blast
  with 1 a show ?case
    by simp
qed

lemma doc_timestamp_new_Message:
  "new_Message M e b = Some d \<Longrightarrow> doc_timestamp d = now e"
  by (auto simp: new_Message_def split: list.splits option.splits if_splits)

lemma send_m_ok_new_Message:
  "fst (send_m M e st b h) = json_ok OkBody \<Longrightarrow> \<exists>d. new_Message M e b = Some d"
  by (auto simp: send_m_def Message_save_def internal_error_def Let_def
      split: promise.splits option.splits if_splits)

lemma message_coll_step_m_grows:
  "\<exists>ys. message_coll (snd (step_m M e st req)) = message_coll st @ ys
        \<and> (\<forall>d \<in> set ys. doc_timestamp d = now e)"
proof (cases req)
  case (Send b h)
  show ?thesis
  proof (cases "fst (send_m M e st b h) = json_ok OkBody")
    case True
    then obtain d where "new_Message M e b = Some d"
      using send_m_ok_new_Message by blast
    with True Send show ?thesis
      using message_coll_step_m [of M e st req]
      by (simp add: doc_timestamp_new_Message)
  next
    case False
    with Send show ?thesis
      using message_coll_step_m [of M e st req] by simp
  qed
qed (use message_coll_step_m [of M e st req] in simp_all)

lemma message_coll_exec_m_grows:
  "\<exists>ys. message_coll (exec_m M st rs) = message_coll st @ ys"
proof (induction rs arbitrary: st)
  case Nil
  then show ?case by simp
next
  case (Cons a rs)
  obtain e r where a: "a = (e, r)"
    by (cases a)
  obtain ys where 1: "message_coll (snd (step_m M e st r)) = message_coll st @ ys"
    using message_coll_step_m_grows [of M e st r] by blast
  obtain zs where "message_coll (exec_m M (snd (step_m M e st r)) rs)
                   = message_coll (snd (step_m M e st r)) @ zs"
    using Cons.IH by blast
  with 1 a show ?case
    by simp
qed

section \<open>Round trip of a message\<close>

lemma round_trip_f:
  assumes "valid_send b" and "str (b ''to'') = A"
    and "fst (step_f K e st (Send b h)) = json_ok OkBody"
    and "messages_f e' (exec_f K (snd (step_f K e st (Send b h))) rs) A h' = (r, st')"
    and "status r = 200"
  shows "\<exists>ms m. payload r = MessagesBody ms \<and> m \<in> set ms
           \<and> m\<lparr>msg_id := None\<rparr> = message_of b e"
proof -
  let ?st1 = "snd (step_f K e st (Send b h))"
  have "stored_messages_f ?st1 = stored_messages_f st @ [message_of b e]"
    using assms(3) stored_messages_step_f [of K e st "Send b h"] by simp
  moreover obtain ys where "stored_messages_f (exec_f K ?st1 rs) = stored_messages_f ?st1 @ ys"
    using stored_messages_exec_f_grows by blast
  ultimately have "message_of b e \<in> set (stored_messages_f (exec_f K ?st1 rs))"
    by simp
  moreover have "msg_to (message_of b e) = JStr A"
    using assms(1,2) by (auto elim!: valid_sendE simp: message_of_def str_def)
  moreover have "(message_of b e)\<lparr>msg_id := None\<rparr> = message_of b e"
    by (simp add: message_of_def)
  ultimately show ?thesis
    using fetch_f_exact [OF assms(4,5)] by auto
qed

lemma round_trip_m:
  assumes "valid_send b" and "str (b ''to'') = A"
    and "fst (step_m M e st (Send b h)) = json_ok OkBody"
    and "messages_m M e' (exec_m M (snd (step_m M e st (Send b h))) rs) A h' = (r, st')"
    and "status r = 200"
  shows "\<exists>ms m. payload r = MessagesBody ms \<and> m \<in> set ms
           \<and> m\<lparr>msg_id := None\<rparr> = message_of b e"
proof -
  let ?st1 = "snd (step_m M e st (Send b h))"
  have "message_coll ?st1 = message_coll st @ [doc_of b e]"
    using assms(3) message_coll_step_m [of M e st "Send b h"]
    by (simp add: new_Message_valid [OF assms(1)])
  moreover obtain ys where "message_coll (exec_m M ?st1 rs) = message_coll ?st1 @ ys"
    using message_coll_exec_m_grows by blast
  ultimately have "doc_of b e \<in> set (message_coll (exec_m M ?st1 rs))"
    by simp
  moreover have "doc_to (doc_of b e) = A"
    using assms(2) by (simp add: doc_of_def)
  ultimately have "lean (doc_of b e) \<in> set (map lean (sort_timestamp M
      (filter (\<lambda>d. doc_to d = A) (message_coll (exec_m M ?st1 rs)))))"
    by simp
  moreover have "(lean (doc_of b e))\<lparr>msg_id := None\<rparr> = message_of b e"
    by (simp add: lean_doc_of [OF assms(1)] message_of_def)
  ultimately show ?thesis
    using fetch_m_exact [OF assms(4,5)] by blast
qed

text \<open>
  Claim C7. After a send with fields \<^verbatim>\<open>from\<close>, \<^verbatim>\<open>to\<close>, \<^verbatim>\<open>ciphertext\<close>,
  \<^verbatim>\<open>encryptedKey\<close> and \<^verbatim>\<open>iv\<close> (non-empty strings) succeeded, every fetch for \<^verbatim>\<open>to\<close>
  that succeeds, at once or after any further requests, returns a message whose five
  fields are the submitted values and whose timestamp is the clock reading of the send.
  This holds in both servers.
\<close>

theorem payload_round_trip:
  assumes "valid_send b" and "str (b ''to'') = A"
  shows "(fst (step_f K e sf (Send b h)) = json_ok OkBody
          \<and> messages_f e' (exec_f K (snd (step_f K e sf (Send b h))) rs) A h' = (r, sf')
          \<and> status r = 200 \<longrightarrow>
          (\<exists>ms m. payload r = MessagesBody ms \<and> m \<in> set ms
             \<and> msg_from m = the (b ''from'') \<and> msg_to m = the (b ''to'')
             \<and> ciphertext m = the (b ''ciphertext'')
             \<and> encryptedKey m = the (b ''encryptedKey'') \<and> iv m = the (b ''iv'')
             \<and> timestamp m = now e))
       \<and> (fst (step_m M e sm (Send b h)) = json_ok OkBody
          \<and> messages_m M e' (exec_m M (snd (step_m M e sm (Send b h))) rs') A h' = (r', sm')
          \<and> status r' = 200 \<longrightarrow>
          (\<exists>ms m. payload r' = MessagesBody ms \<and> m \<in> set ms
             \<and> msg_from m = the (b ''from'') \<and> msg_to m = the (b ''to'')
             \<and> ciphertext m = the (b ''ciphertext'')
             \<and> encryptedKey m = the (b ''encryptedKey'') \<and> iv m = the (b ''iv'')
             \<and> timestamp m = now e))"
proof -
  have fields: "msg_from m = the (b ''from'') \<and> msg_to m = the (b ''to'')
      \<and> ciphertext m = the (b ''ciphertext'') \<and> encryptedKey m = the (b ''encryptedKey'')
      \<and> iv m = the (b ''iv'') \<and> timestamp m = now e"
    if "m\<lparr>msg_id := None\<rparr> = message_of b e" for m
  proof -
    have "msg_from (m\<lparr>msg_id := None\<rparr>) = the (b ''from'')"
      "msg_to (m\<lparr>msg_id := None\<rparr>) = the (b ''to'')"
      "ciphertext (m\<lparr>msg_id := None\<rparr>) = the (b ''ciphertext'')"
      "encryptedKey (m\<lparr>msg_id := None\<rparr>) = the (b ''encryptedKey'')"
      "iv (m\<lparr>msg_id := None\<rparr>) = the (b ''iv'')" "timestamp (m\<lparr>msg_id := None\<rparr>) = now e"
      unfolding that by (simp_all add: message_of_def)
    then show ?thesis
      by simp
  qed
  show ?thesis
    using round_trip_f [OF assms, of K e sf h e' rs h' r sf']
      round_trip_m [OF assms, of M e sm h e' rs' h' r' sm'] fields
    by blast
qed

theorem payload_round_trip_witness:
  "(\<exists>ms m. payload (fst (messages_f env3 (exec_f K0 (snd (step_f K0 env3 sf_example
          (Send (send_body ''alice'' ''bob'' ''c9'') (Some (randomHex 1))))) [(env3, Users)])
          ''bob'' (Some (randomHex 2)))) = MessagesBody ms
        \<and> m \<in> set ms \<and> ciphertext m = JStr ''c9'' \<and> timestamp m = 40)
   \<and> (\<exists>ms m. payload (fst (messages_m M0 env3 (exec_m M0 (snd (step_m M0 env3 sm_example
          (Send (send_body ''alice'' ''bob'' ''c9'') (Some (randomHex 1))))) [(env3, Users)])
          ''bob'' (Some (randomHex 2)))) = MessagesBody ms
        \<and> m \<in> set ms \<and> ciphertext m = JStr ''c9'' \<and> timestamp m = 40)"
proof -
  let ?b = "send_body ''alice'' ''bob'' ''c9''"
  let ?h = "Some (randomHex 1)"
  let ?sf = "exec_f K0 (snd (step_f K0 env3 sf_example (Send ?b ?h))) [(env3, Users)]"
  let ?sm = "exec_m M0 (snd (step_m M0 env3 sm_example (Send ?b ?h))) [(env3, Users)]"
  let ?rf = "messages_f env3 ?sf ''bob'' (Some (randomHex 2))"
  let ?rm = "messages_m M0 env3 ?sm ''bob'' (Some (randomHex 2))"
  have v: "valid_send ?b"
    by (simp add: valid_send_body)
  have t: "str (?b ''to'') = ''bob''"
    by simp
  have af: "map_of (stored_users_f sf_example) (str (?b ''from'')) = Some alice_rec"
    using alice_f by simp
  have am: "find (\<lambda>d. username d = str (?b ''from'')) (user_coll sm_example) = Some alice_doc"
    using alice_m by simp
  have e: "disk_ok env3" "db_fault env3 = None"
    by (simp_all add: env3_def)
  have tok: "token alice_rec = randomHex 1" "doc_token alice_doc = randomHex 1"
    by (simp_all add: alice_rec_def alice_doc_def)
  have okf: "fst (step_f K0 env3 sf_example (Send ?b ?h)) = json_ok OkBody"
    using send_f_accepts(1) [OF v wf_f_example af e(1), of K0] by (simp add: tok)
  have okm: "fst (step_m M0 env3 sm_example (Send ?b ?h)) = json_ok OkBody"
    using send_m_accepts [OF v wf_m_example e(2) am, of M0] by (simp add: tok)
  have uf: "stored_users_f ?sf = stored_users_f sf_example"
    using send_f_accepts(3) [OF v wf_f_example af e(1), of K0]
    by (simp add: tok users_f_normal)
  have um: "user_coll ?sm = user_coll sm_example"
    using send_m_accepts [OF v wf_m_example e(2) am, of M0]
    by (simp add: tok users_m_def User_find_def e(2))
  have gf: "js_get (stored_users_f ?sf) ''bob'' = Own bob_rec"
    using bob_f by (simp only: uf js_get_Own)
  have gm: "find (\<lambda>d. username d = ''bob'') (user_coll ?sm) = Some bob_doc"
    using bob_m by (simp only: um)
  have sf: "status (fst ?rf) = 200"
    using randomHex_nonempty [of 2]
    by (simp only: messages_f_normal gf Let_def) (simp add: bob_rec_def truthy_header_def)
  have sm: "status (fst ?rm) = 200"
    using randomHex_nonempty [of 2]
    by (simp only: messages_m_normal [OF e(2)] gm) (simp add: bob_doc_def truthy_header_def)
  note th = payload_round_trip [OF v t, of K0 env3 sf_example ?h env3 "[(env3, Users)]"
      "Some (randomHex 2)" "fst ?rf" "snd ?rf" M0 sm_example "[(env3, Users)]"
      "fst ?rm" "snd ?rm"]
  have cf: "?rf = (fst ?rf, snd ?rf)" and cm: "?rm = (fst ?rm, snd ?rm)"
    by simp_all
  have fields: "the (?b ''ciphertext'') = JStr ''c9''" "now env3 = 40"
    by (simp_all add: send_body_def env3_def)
  from th okf cf sf obtain ms m where "payload (fst ?rf) = MessagesBody ms" "m \<in> set ms"
    "ciphertext m = the (?b ''ciphertext'')" "timestamp m = now env3"
    by blast
  then have 1: "\<exists>ms m. payload (fst ?rf) = MessagesBody ms
        \<and> m \<in> set ms \<and> ciphertext m = JStr ''c9'' \<and> timestamp m = 40"
    unfolding fields by blast
  from th okm cm sm obtain ms' m' where "payload (fst ?rm) = MessagesBody ms'" "m' \<in> set ms'"
    "ciphertext m' = the (?b ''ciphertext'')" "timestamp m' = now env3"
    by blast
  then have 2: "\<exists>ms m. payload (fst ?rm) = MessagesBody ms
        \<and> m \<in> set ms \<and> ciphertext m = JStr ''c9'' \<and> timestamp m = 40"
    unfolding fields by blast
  from 1 2 show ?thesis
    by (rule conjI)
qed

section \<open>The order of fetched messages\<close>








text \<open>
  On documents whose timestamps strictly increase, the sorted query returns the
  documents in the order they are stored, whatever the database does with ties.
\<close>

lemma sort_timestamp_id:
  assumes "sorted_wrt (<) (map doc_timestamp ds)"
  shows "sort_timestamp M ds = ds"
proof -
  have s: "sorted (map doc_timestamp ds)" and d: "distinct (map doc_timestamp ds)"
    using assms by (simp_all add: strict_sorted_iff)
  have "mset (map doc_timestamp (sort_timestamp M ds)) = mset (map doc_timestamp ds)"
    by simp
  then have d': "distinct (map doc_timestamp (sort_timestamp M ds))"
    using d by (metis mset_eq_imp_distinct_iff)
  have i: "inj_on doc_timestamp (set (sort_timestamp M ds) \<union> set ds)"
    using d by (simp add: distinct_map)
  show ?thesis
    using i sorted_sort_timestamp d' s d
    by (rule map_sorted_distinct_set_unique) simp
qed






section \<open>The example runs\<close>

lemma scenario_f:
  "exec_f K0 init_f scenario = sf_example"
  "run_f K0 init_f scenario
   = [json_ok (TokenBody (randomHex 1)), json_ok (TokenBody (randomHex 2)),
      json_ok OkBody, json_ok OkBody, json_ok OkBody]"
  using randomHex_nonempty [of 1] randomHex_nonempty [of 2]
  by (simp_all add: scenario_def sf_example_def example_bodies_def init_f_def
      env0_def env1_def env2_def env2b_def env3_def reg_body_def send_body_def alice_rec_def
      bob_rec_def register_f_def send_f_def readJson_def writeJson_def js_set_def js_get_def
      toPropertyKey_def truthy_header_def message_of_def Let_def randomHex_1 randomHex_2)

lemma scenario_m:
  "exec_m M0 init_m scenario = sm_example"
  "run_m M0 init_m scenario
   = [json_ok (TokenBody (randomHex 1)), json_ok (TokenBody (randomHex 2)),
      json_ok OkBody, json_ok OkBody, json_ok OkBody]"
  by (simp_all add: scenario_def sm_example_def example_bodies_def init_m_def
      env0_def env1_def env2_def env2b_def env3_def reg_body_def send_body_def alice_doc_def
      bob_doc_def register_m_def send_m_def User_findOne_def User_save_def new_User_def
      new_Message_def Message_save_def cast_def truthy_header_def doc_of_def str_def Let_def
      randomHex_1 randomHex_2)

text \<open>
  The run on which the clock goes back between two sends: both sends are accepted; the
  flat-file server returns the messages in the order they were sent, the database
  server in the order of their timestamps.
\<close>

lemma clock_back_f:
  "run_f K0 init_f clock_back_run
   = [json_ok (TokenBody (randomHex 1)), json_ok OkBody, json_ok OkBody,
      json_ok (MessagesBody [message_of (send_body ''alice'' ''alice'' ''c1'') env3,
                             message_of (send_body ''alice'' ''alice'' ''c2'') env2])]"
  using randomHex_nonempty [of 1]
  by (simp add: clock_back_run_def init_f_def env0_def env2_def env3_def reg_body_def
      send_body_def register_f_def send_f_def messages_f_def readJson_def writeJson_def
      js_set_def js_get_def toPropertyKey_def truthy_header_def message_of_def Let_def)

lemma clock_back_m:
  "run_m M0 init_m clock_back_run
   = [json_ok (TokenBody (randomHex 1)), json_ok OkBody, json_ok OkBody,
      json_ok (MessagesBody [lean (doc_of (send_body ''alice'' ''alice'' ''c2'') env2),
                             lean (doc_of (send_body ''alice'' ''alice'' ''c1'') env3)])]"
  using randomHex_nonempty [of 1]
  by (simp add: clock_back_run_def init_m_def env0_def env2_def env3_def reg_body_def
      send_body_def register_m_def send_m_def messages_m_def User_findOne_def User_save_def
      new_User_def new_Message_def Message_save_def Message_find_def sort_timestamp_def
      M0_def cast_def doc_of_def str_def truthy_header_def Let_def)

text \<open>
  The run with two sends within the same millisecond: the flat-file server returns the
  messages in the order they were sent, the database server in the order the database
  gives documents of equal timestamp.
\<close>

lemma tie_f:
  "run_f K0 init_f tie_run
   = [json_ok (TokenBody (randomHex 1)), json_ok OkBody, json_ok OkBody,
      json_ok (MessagesBody [message_of (send_body ''alice'' ''alice'' ''c1'') env2,
                             message_of (send_body ''alice'' ''alice'' ''c2'') env_tie])]"
  using randomHex_nonempty [of 1]
  by (simp add: tie_run_def init_f_def env0_def env2_def env_tie_def env3_def reg_body_def
      send_body_def register_f_def send_f_def messages_f_def readJson_def writeJson_def
      js_set_def js_get_def toPropertyKey_def truthy_header_def message_of_def Let_def)

lemma tie_m:
  "run_m M_rev init_m tie_run
   = [json_ok (TokenBody (randomHex 1)), json_ok OkBody, json_ok OkBody,
      json_ok (MessagesBody [lean (doc_of (send_body ''alice'' ''alice'' ''c2'') env_tie),
                             lean (doc_of (send_body ''alice'' ''alice'' ''c1'') env2)])]"
  using randomHex_nonempty [of 1]
  by (simp add: tie_run_def init_m_def env0_def env2_def env_tie_def env3_def reg_body_def
      send_body_def register_m_def send_m_def messages_m_def User_findOne_def User_save_def
      new_User_def new_Message_def Message_save_def Message_find_def sort_timestamp_def
      M_rev_def cast_def doc_of_def str_def truthy_header_def Let_def)




section \<open>The two servers on plain runs\<close>

text \<open>
  Removing the \<^verbatim>\<open>_id\<close> of the messages changes a response only when its body is a
  list of messages.
\<close>

lemma strip_ids_simps [simp]:
  "strip_ids (json_error c m) = json_error c m"
  "strip_ids internal_error = internal_error"
  "strip_ids (json_ok (TokenBody t)) = json_ok (TokenBody t)"
  "strip_ids (json_ok (PublicKeyBody k)) = json_ok (PublicKeyBody k)"
  "strip_ids (json_ok OkBody) = json_ok OkBody"
  "strip_ids (json_ok (UsersBody us)) = json_ok (UsersBody us)"
  "strip_ids (json_ok (MessagesBody ms)) = json_ok (MessagesBody (map without_id ms))"
  by (simp_all add: strip_ids_def json_error_def json_ok_def internal_error_def)

lemma without_id_lean_doc_of: "valid_send b \<Longrightarrow> without_id (lean (doc_of b e)) = message_of b e"
  by (simp add: lean_doc_of without_id_def message_of_def)

lemma without_id_fields [simp]:
  "msg_from (without_id m) = msg_from m" "msg_to (without_id m) = msg_to m"
  "ciphertext (without_id m) = ciphertext m" "encryptedKey (without_id m) = encryptedKey m"
  "iv (without_id m) = iv m" "timestamp (without_id m) = timestamp m"
  "msg_id (without_id m) = None"
  by (simp_all add: without_id_def)

text \<open>
  On documents whose timestamps strictly increase, the sorted query of the database
  server returns, up to the \<^verbatim>\<open>_id\<close>, what the filter of the flat-file server returns.
\<close>

lemma strict_query_is_filter:
  assumes "sorted_wrt (<) (map doc_timestamp ds)"
  shows "map without_id (map lean (sort_timestamp M (filter (\<lambda>d. doc_to d = A) ds)))
         = filter (\<lambda>m. msg_to m = JStr A) (map without_id (map lean ds))"
proof -
  have "sorted_wrt (\<lambda>x y. doc_timestamp x < doc_timestamp y) (filter (\<lambda>d. doc_to d = A) ds)"
    using assms by (simp add: sorted_wrt_map sorted_wrt_filter)
  then have "sorted_wrt (<) (map doc_timestamp (filter (\<lambda>d. doc_to d = A) ds))"
    by (simp add: sorted_wrt_map)
  then have "sort_timestamp M (filter (\<lambda>d. doc_to d = A) ds) = filter (\<lambda>d. doc_to d = A) ds"
    by (rule sort_timestamp_id)
  moreover have "filter (\<lambda>m. msg_to m = JStr A) (map without_id (map lean ds))
                 = map without_id (map lean (filter (\<lambda>d. doc_to d = A) ds))"
    by (induction ds) (auto simp: lean_def)
  ultimately show ?thesis
    by simp
qed

lemma map_of_entries:
  "map_of (map entry_of ds) k
   = map_option (\<lambda>d. snd (entry_of d)) (find (\<lambda>d. username d = k) ds)"
  by (induction ds) (auto simp: entry_of_def)

lemma js_get_entries:
  "\<not> inherited k \<Longrightarrow>
   js_get (map entry_of ds) k
   = (case find (\<lambda>d. username d = k) ds of
        None \<Rightarrow> Undefined | Some d \<Rightarrow> Own (snd (entry_of d)))"
  by (simp add: js_get_def map_of_entries inherited_def split: option.splits)

lemma update_new_key: "k \<notin> fst ` set al \<Longrightarrow> AList.update k v al = al @ [(k, v)]"
  by (induction al) auto

lemma object_keys_no_index:
  assumes "\<forall>k \<in> set (map fst al). array_index k = None"
  shows "object_keys al = map fst al"
proof -
  have "filter (\<lambda>k. array_index k \<noteq> None) (map fst al) = []"
    using assms by (auto simp: filter_empty_conv)
  moreover have "filter (\<lambda>k. array_index k = None) (map fst al) = map fst al"
    using assms by (auto simp: filter_id_conv)
  ultimately show ?thesis
    by (simp add: object_keys_def)
qed

lemma fst_entry_of [simp]: "fst (entry_of d) = username d"
  by (simp add: entry_of_def)

lemma token_entry_of [simp]: "token (snd (entry_of d)) = doc_token d"
  by (simp add: entry_of_def)

lemma publicKeyPem_entry_of [simp]: "publicKeyPem (snd (entry_of d)) = JStr (doc_publicKeyPem d)"
  by (simp add: entry_of_def)

lemma plain_truthy_nonempty: "plain_field v \<Longrightarrow> truthy v = nonempty_string v"
  by (auto simp: plain_field_def nonempty_string_def split: option.splits json.splits)

lemma plain_register_valid:
  "plain_request (Register b) \<Longrightarrow>
   valid_register b = (truthy (b ''username'') \<and> truthy (b ''publicKeyPem''))"
  by (simp add: valid_register_def plain_truthy_nonempty)

lemma plain_send_valid:
  "plain_request (Send b h) \<Longrightarrow>
   valid_send b = (truthy (b ''from'') \<and> truthy (b ''to'') \<and> truthy (b ''ciphertext'')
                   \<and> truthy (b ''encryptedKey'') \<and> truthy (b ''iv''))"
  by (simp add: valid_send_def plain_truthy_nonempty)

lemma sim_read_users [simp]:
  "sim (sf\<lparr>users_file := snd (readJson e (users_file sf) [])\<rparr>) sm = sim sf sm"
  by (simp add: sim_def)

lemma sim_read_both [simp]:
  "sim (sf\<lparr>users_file := snd (readJson e (users_file sf) []),
            msg_file := snd (readJson e' (msg_file sf) [])\<rparr>) sm = sim sf sm"
  by (simp add: sim_def)

lemma find_username_new:
  "u \<notin> set (map username ds) \<Longrightarrow> find (\<lambda>d. username d = u) ds = None"
  by (induction ds) auto

lemma sim_register:
  assumes "sim sf sm" and "env_ok e" and "plain_request (Register b)"
    and "valid_register b \<Longrightarrow> str (b ''username'') \<notin> set (map username (user_coll sm))"
  shows "fst (register_f K e sf b) = strip_ids (fst (register_m M e sm b))"
    and "sim (snd (register_f K e sf b)) (snd (register_m M e sm b))"
proof -
  have ok: "disk_ok e" "db_fault e = None"
    using assms(2) by (simp_all add: env_ok_def)
  show "fst (register_f K e sf b) = strip_ids (fst (register_m M e sm b))"
  proof (cases "valid_register b")
    case True
    then have "find (\<lambda>d. username d = str (b ''username'')) (user_coll sm) = None"
      using assms(4) by (simp add: find_username_new)
    with True ok show ?thesis
      using plain_register_valid [OF assms(3)]
      by (simp add: register_f_normal register_m_valid [OF True ok(2)])
  next
    case False
    then show ?thesis
      using plain_register_valid [OF assms(3)] by (auto simp: register_f_normal register_m_def)
  qed
  show "sim (snd (register_f K e sf b)) (snd (register_m M e sm b))"
  proof (cases "valid_register b")
    case True
    let ?u = "str (b ''username'')"
    from True obtain u p where b: "b ''username'' = Some (JStr u)" "u \<noteq> []"
      "b ''publicKeyPem'' = Some (JStr p)" "p \<noteq> []"
      by (rule valid_registerE)
    then have u: "?u = u" and key: "toPropertyKey K (the (b ''username'')) = u"
      by (simp_all add: str_def toPropertyKey_def)
    have none: "find (\<lambda>d. username d = ?u) (user_coll sm) = None"
      using assms(4) True by (simp add: find_username_new)
    have "\<not> inherited u"
      using assms(3) u by (simp add: ordinary_name_def)
    then have np: "u \<noteq> ''__proto__''"
      by (auto simp: inherited_def object_prototype_names_def)
    have "u \<notin> fst ` set (stored_users_f sf)"
      using assms(1,4) True u by (auto simp: sim_def)
    then have set: "js_set (stored_users_f sf) u
          \<lparr>publicKeyPem = JStr p, token = randomHex (rnd e), createdAt = now e\<rparr>
        = stored_users_f sf
          @ [(u, \<lparr>publicKeyPem = JStr p, token = randomHex (rnd e), createdAt = now e\<rparr>)]"
      using np by (simp add: js_set_def update_new_key)
    have "entry_of (user_of b e)
          = (u, \<lparr>publicKeyPem = JStr p, token = randomHex (rnd e), createdAt = now e\<rparr>)"
      using b by (simp add: entry_of_def user_of_def str_def)
    then show ?thesis
      using assms(1) ok b none key set
      by (simp add: register_f_normal register_m_valid [OF True ok(2)] sim_def
          stored_messages_m_def)
  next
    case False
    then show ?thesis
      using plain_register_valid [OF assms(3)] assms(1)
      by (auto simp: register_f_normal register_m_def)
  qed
qed

lemma sim_publicKey:
  assumes "sim sf sm" and "env_ok e" and "\<not> inherited u"
  shows "fst (publicKey_f e sf u) = strip_ids (fst (publicKey_m M e sm u))"
    and "sim (snd (publicKey_f e sf u)) (snd (publicKey_m M e sm u))"
  using assms
  by (auto simp: publicKey_f_normal publicKey_m_def User_findOne_def env_ok_def sim_def
      js_get_entries Let_def split: option.splits)

lemma sim_send:
  assumes "sim sf sm" and "env_ok e" and "plain_request (Send b h)"
  shows "fst (send_f K e sf b h) = strip_ids (fst (send_m M e sm b h))"
    and "sim (snd (send_f K e sf b h)) (snd (send_m M e sm b h))"
proof -
  have ok: "disk_ok e" "db_fault e = None"
    using assms(2) by (simp_all add: env_ok_def)
  have ni: "\<not> inherited (str (b ''from''))"
    using assms(3) by simp
  have us: "stored_users_f sf = map entry_of (user_coll sm)"
    and ms: "stored_messages_f sf = map without_id (map lean (message_coll sm))"
    using assms(1) by (simp_all add: sim_def stored_messages_m_def)
  show "fst (send_f K e sf b h) = strip_ids (fst (send_m M e sm b h))"
  proof (cases "valid_send b")
    case True
    show ?thesis
      using ok
      by (auto simp: send_f_valid [OF True] send_m_valid [OF True ok(2)] us
          js_get_entries [OF ni] Let_def split: option.splits)
  next
    case False
    then show ?thesis
      using plain_send_valid [OF assms(3)] by (auto simp: send_f_normal send_m_def)
  qed
  show "sim (snd (send_f K e sf b h)) (snd (send_m M e sm b h))"
  proof (cases "valid_send b")
    case True
    show ?thesis
      using ok assms(1)
      by (auto simp: send_f_valid [OF True] send_m_valid [OF True ok(2)] us ms
          js_get_entries [OF ni] without_id_lean_doc_of [OF True] sim_def
          stored_messages_m_def Let_def
          split: option.splits)
  next
    case False
    then show ?thesis
      using plain_send_valid [OF assms(3)] assms(1) by (auto simp: send_f_normal send_m_def)
  qed
qed

lemma sim_messages:
  assumes "sim sf sm" and "env_ok e" and "\<not> inherited u"
    and "sorted_wrt (<) (map doc_timestamp (message_coll sm))"
  shows "fst (messages_f e sf u h) = strip_ids (fst (messages_m M e sm u h))"
    and "sim (snd (messages_f e sf u h)) (snd (messages_m M e sm u h))"
proof -
  have ok: "db_fault e = None"
    using assms(2) by (simp add: env_ok_def)
  have us: "stored_users_f sf = map entry_of (user_coll sm)"
    using assms(1) by (simp add: sim_def)
  have ms: "stored_messages_f sf = map without_id (map lean (message_coll sm))"
    using assms(1) by (simp only: sim_def stored_messages_m_def)
  have q: "map without_id (map lean (sort_timestamp M
             (filter (\<lambda>d. doc_to d = u) (message_coll sm))))
           = filter (\<lambda>m. msg_to m = JStr u) (stored_messages_f sf)"
    unfolding ms using assms(4) by (rule strict_query_is_filter)
  show "fst (messages_f e sf u h) = strip_ids (fst (messages_m M e sm u h))"
    by (auto simp: messages_f_normal messages_m_normal [OF ok] us q
        js_get_entries [OF assms(3)] Let_def
        simp del: map_map split: option.splits)
  show "sim (snd (messages_f e sf u h)) (snd (messages_m M e sm u h))"
    using assms(1)
    by (auto simp: messages_f_normal messages_m_normal [OF ok] us
        js_get_entries [OF assms(3)] Let_def split: option.splits)
qed

lemma sim_users:
  assumes "sim sf sm" and "env_ok e"
    and "\<forall>d \<in> set (user_coll sm). array_index (username d) = None"
  shows "fst (users_f e sf) = strip_ids (fst (users_m e sm))"
    and "sim (snd (users_f e sf)) (snd (users_m e sm))"
proof -
  have us: "stored_users_f sf = map entry_of (user_coll sm)"
    using assms(1) by (simp add: sim_def)
  have "object_keys (map entry_of (user_coll sm)) = map fst (map entry_of (user_coll sm))"
    using assms(3) by (intro object_keys_no_index) auto
  then have "object_keys (stored_users_f sf) = map username (user_coll sm)"
    by (simp add: us comp_def)
  then show "fst (users_f e sf) = strip_ids (fst (users_m e sm))"
    using assms(2) by (simp add: users_f_normal users_m_def User_find_def env_ok_def)
  show "sim (snd (users_f e sf)) (snd (users_m e sm))"
    using assms(1,2) by (simp add: users_f_normal users_m_def User_find_def env_ok_def)
qed

lemma user_coll_plain_step:
  assumes "env_ok e" and "plain_request r"
  shows "user_coll (snd (step_m M e sm r)) =
     (case r of
        Register b \<Rightarrow>
          if valid_register b \<and> str (b ''username'') \<notin> set (map username (user_coll sm))
          then user_coll sm @ [user_of b e] else user_coll sm
      | _ \<Rightarrow> user_coll sm)"
proof (cases r)
  case (Register b)
  have ok: "db_fault e = None"
    using assms(1) by (simp add: env_ok_def)
  show ?thesis
  proof (cases "valid_register b")
    case True
    show ?thesis
    proof (cases "find (\<lambda>d. username d = str (b ''username'')) (user_coll sm)")
      case None
      then show ?thesis
        using Register True find_username_None [OF None]
        by (simp add: register_m_valid [OF True ok])
    next
      case (Some d)
      then have "str (b ''username'') \<in> set (map username (user_coll sm))"
        using find_Some_set [OF Some] by (auto intro: rev_image_eqI)
      with Some Register True show ?thesis
        by (simp add: register_m_valid [OF True ok])
    qed
  next
    case False
    with Register show ?thesis
      using plain_register_valid [of b] assms(2) by (auto simp: register_m_def)
  qed
next
  case (Send b h)
  then show ?thesis
    by (auto simp: send_m_def Message_save_def Let_def
        split: promise.splits option.splits)
qed (auto simp: publicKey_m_def messages_m_def users_m_def
    split: promise.splits option.splits)

lemma sim_step:
  assumes "sim sf sm" and "env_ok e" and "plain_request r"
    and "set (registrations [(e, r)]) \<inter> set (map username (user_coll sm)) = {}"
    and "\<forall>d \<in> set (user_coll sm). array_index (username d) = None"
    and "sorted_wrt (<) (map doc_timestamp (message_coll sm))"
  shows "fst (step_f K e sf r) = strip_ids (fst (step_m M e sm r))"
    and "sim (snd (step_f K e sf r)) (snd (step_m M e sm r))"
proof -
  have new: "valid_register b \<Longrightarrow> str (b ''username'') \<notin> set (map username (user_coll sm))"
    if "r = Register b" for b
    using assms(4) that by auto
  show "fst (step_f K e sf r) = strip_ids (fst (step_m M e sm r))"
  proof (cases r)
    case (Register b)
    have p: "plain_request (Register b)"
      using assms(3) Register by simp
    have n: "valid_register b \<Longrightarrow> str (b ''username'') \<notin> set (map username (user_coll sm))"
      using new [OF Register] .
    show ?thesis
      using sim_register(1) [OF assms(1,2) p n] Register by simp
  next
    case (PublicKey u)
    have p: "\<not> inherited u"
      using assms(3) PublicKey by simp
    show ?thesis
      using sim_publicKey(1) [OF assms(1,2) p] PublicKey by simp
  next
    case (Send b h)
    have p: "plain_request (Send b h)"
      using assms(3) Send by simp
    show ?thesis
      using sim_send(1) [OF assms(1,2) p] Send by simp
  next
    case (Messages u h)
    have p: "\<not> inherited u"
      using assms(3) Messages by simp
    show ?thesis
      using sim_messages(1) [OF assms(1,2) p assms(6)] Messages by simp
  next
    case Users
    then show ?thesis
      using sim_users(1) [OF assms(1,2,5)] by simp
  qed
  show "sim (snd (step_f K e sf r)) (snd (step_m M e sm r))"
  proof (cases r)
    case (Register b)
    have p: "plain_request (Register b)"
      using assms(3) Register by simp
    have n: "valid_register b \<Longrightarrow> str (b ''username'') \<notin> set (map username (user_coll sm))"
      using new [OF Register] .
    show ?thesis
      using sim_register(2) [OF assms(1,2) p n] Register by simp
  next
    case (PublicKey u)
    have p: "\<not> inherited u"
      using assms(3) PublicKey by simp
    show ?thesis
      using sim_publicKey(2) [OF assms(1,2) p] PublicKey by simp
  next
    case (Send b h)
    have p: "plain_request (Send b h)"
      using assms(3) Send by simp
    show ?thesis
      using sim_send(2) [OF assms(1,2) p] Send by simp
  next
    case (Messages u h)
    have p: "\<not> inherited u"
      using assms(3) Messages by simp
    show ?thesis
      using sim_messages(2) [OF assms(1,2) p assms(6)] Messages by simp
  next
    case Users
    then show ?thesis
      using sim_users(2) [OF assms(1,2,5)] by simp
  qed
qed

lemma registrations_Cons:
  "set (registrations ((e, r) # rs)) = set (registrations [(e, r)]) \<union> set (registrations rs)"
  by (cases r) auto

lemma registrations_head_distinct:
  "distinct (registrations ((e, r) # rs)) \<Longrightarrow>
   distinct (registrations rs) \<and> set (registrations [(e, r)]) \<inter> set (registrations rs) = {}"
  by (cases r) (auto split: if_splits)

text \<open>
  While the clock advances from each send to the next, the timestamps of the stored
  documents strictly increase.
\<close>

lemma strict_step_m:
  assumes "sorted_wrt (<) (map doc_timestamp (message_coll st))"
    and "\<forall>d \<in> set (message_coll st). \<forall>t \<in> set (send_times ((e, r) # rs)). doc_timestamp d < t"
    and "sorted_wrt (<) (send_times ((e, r) # rs))"
  shows "sorted_wrt (<) (map doc_timestamp (message_coll (snd (step_m M e st r))))"
    and "\<forall>d \<in> set (message_coll (snd (step_m M e st r))). \<forall>t \<in> set (send_times rs).
           doc_timestamp d < t"
    and "sorted_wrt (<) (send_times rs)"
proof -
  obtain ys where ys: "message_coll (snd (step_m M e st r)) = message_coll st @ ys"
    "\<forall>d \<in> set ys. doc_timestamp d = now e"
    using message_coll_step_m_grows [of M e st r] by blast
  have one: "ys = [] \<or> (\<exists>d b h. ys = [d] \<and> r = Send b h)"
    using ys(1) message_coll_step_m [of M e st r] by (cases r) (auto split: if_splits)
  show "sorted_wrt (<) (send_times rs)"
    using assms(3) by (cases r) simp_all
  show "sorted_wrt (<) (map doc_timestamp (message_coll (snd (step_m M e st r))))"
    using one
  proof
    assume "ys = []"
    then show ?thesis
      using assms(1) ys(1) by simp
  next
    assume "\<exists>d b h. ys = [d] \<and> r = Send b h"
    then obtain d b h where d: "ys = [d]" "r = Send b h"
      by blast
    then have "doc_timestamp d = now e"
      using ys(2) by simp
    then show ?thesis
      using assms(1,2) d ys(1) by (auto simp: sorted_wrt_append)
  qed
  show "\<forall>d \<in> set (message_coll (snd (step_m M e st r))). \<forall>t \<in> set (send_times rs).
          doc_timestamp d < t"
    using one
  proof
    assume "ys = []"
    then show ?thesis
      using assms(2) ys(1) by (cases r) auto
  next
    assume "\<exists>d b h. ys = [d] \<and> r = Send b h"
    then obtain d b h where d: "ys = [d]" "r = Send b h"
      by blast
    then have "doc_timestamp d = now e"
      using ys(2) by simp
    then show ?thesis
      using assms(2,3) d ys(1) by auto
  qed
qed

lemma sim_run:
  assumes "sim sf sm"
    and "list_all (\<lambda>x. env_ok (fst x) \<and> plain_request (snd x)) rs"
    and "distinct (registrations rs)"
    and "set (registrations rs) \<inter> set (map username (user_coll sm)) = {}"
    and "\<forall>d \<in> set (user_coll sm). array_index (username d) = None"
    and "sorted_wrt (<) (send_times rs)"
    and "sorted_wrt (<) (map doc_timestamp (message_coll sm))"
    and "\<forall>d \<in> set (message_coll sm). \<forall>t \<in> set (send_times rs). doc_timestamp d < t"
  shows "run_f K sf rs = map strip_ids (run_m M sm rs)"
  using assms
proof (induction rs arbitrary: sf sm)
  case Nil
  then show ?case by simp
next
  case (Cons a rs)
  obtain e r where a: "a = (e, r)"
    by (cases a)
  let ?sf = "snd (step_f K e sf r)"
  let ?sm = "snd (step_m M e sm r)"
  have ok: "env_ok e" and plain: "plain_request r"
    and rest: "list_all (\<lambda>x. env_ok (fst x) \<and> plain_request (snd x)) rs"
    using Cons.prems(2) a by simp_all
  have regs: "distinct (registrations rs)"
    "set (registrations [(e, r)]) \<inter> set (registrations rs) = {}"
    using registrations_head_distinct [of e r rs] Cons.prems(3) a by simp_all
  have new: "set (registrations [(e, r)]) \<inter> set (map username (user_coll sm)) = {}"
    and old: "set (registrations rs) \<inter> set (map username (user_coll sm)) = {}"
    using Cons.prems(4) registrations_Cons [of e r rs] a by auto
  note step = sim_step [OF Cons.prems(1) ok plain new Cons.prems(5,7), of K M]
  have users: "set (map username (user_coll ?sm))
               \<subseteq> set (map username (user_coll sm)) \<union> set (registrations [(e, r)])"
    using user_coll_plain_step [OF ok plain, of M sm]
    by (cases r) (auto simp: user_of_def split: if_splits)
  have 4: "set (registrations rs) \<inter> set (map username (user_coll ?sm)) = {}"
    using users old regs(2) by blast
  have 5: "\<forall>d \<in> set (user_coll ?sm). array_index (username d) = None"
    using user_coll_plain_step [OF ok plain, of M sm] Cons.prems(5) plain
    by (cases r) (auto simp: user_of_def ordinary_name_def split: if_splits)
  have p7: "sorted_wrt (<) (map doc_timestamp (message_coll sm))"
    and p8: "\<forall>d \<in> set (message_coll sm). \<forall>t \<in> set (send_times ((e, r) # rs)).
               doc_timestamp d < t"
    and p6: "sorted_wrt (<) (send_times ((e, r) # rs))"
    using Cons.prems(6,7,8) a by simp_all
  note strict = strict_step_m(1,2) [OF p7 p8 p6, of M]
  have 6: "sorted_wrt (<) (send_times rs)"
    using p7 p8 p6 by (rule strict_step_m(3))
  have "run_f K ?sf rs = map strip_ids (run_m M ?sm rs)"
    using Cons.IH [OF step(2) rest regs(1) 4 5 6 strict(1) strict(2)] .
  with step(1) a show ?case
    by simp
qed

lemma sim_init: "sim init_f init_m"
  by (simp add: sim_def init_f_def init_m_def stored_users_f_def stored_messages_f_def
      stored_messages_m_def)

lemma plain_session: "plain_run session"
  by (simp add: plain_run_def session_def scenario_def env_ok_def env0_def env1_def env2_def
      env2b_def env3_def reg_body_def send_body_def plain_field_def inherited_def
      ordinary_name_def object_prototype_names_def array_index_def digit_def str_def
      valid_register_def nonempty_string_def)

text \<open>
  The responses of the scenario, as the specification lists them: two tokens, three
  times \<^verbatim>\<open>{ok: true}\<close>, the two messages for \<^verbatim>\<open>bob\<close>, 401 for the wrong credential,
  404 for \<^verbatim>\<open>carol\<close>, the key of \<^verbatim>\<open>alice\<close> and the two usernames. The messages the
  database server returns have an \<^verbatim>\<open>_id\<close>, those of the flat-file server have none.
\<close>

lemma session_responses_m:
  "run_m M0 init_m session
   = [json_ok (TokenBody (randomHex 1)), json_ok (TokenBody (randomHex 2)),
      json_ok OkBody, json_ok OkBody, json_ok OkBody,
      json_ok (MessagesBody [lean (doc_of (send_body ''alice'' ''bob'' ''c1'') env2),
                             lean (doc_of (send_body ''alice'' ''bob'' ''c3'') env3)]),
      json_error 401 ''invalid api key'', json_error 404 ''unknown user'',
      json_ok (PublicKeyBody (Some (JStr ''PEM_A''))), json_ok (UsersBody [''alice'', ''bob''])]"
proof -
  have d: "db_fault env3 = None"
    by (simp add: env3_def)
  have x: "''x'' \<noteq> randomHex 2"
    by (simp add: randomHex_2)
  have "run_m M0 sm_example
          [(env3, Messages ''bob'' (Some (randomHex 2))), (env3, Messages ''bob'' (Some ''x'')),
           (env3, Messages ''carol'' None), (env3, PublicKey ''alice''), (env3, Users)]
        = [json_ok (MessagesBody [lean (doc_of (send_body ''alice'' ''bob'' ''c1'') env2),
                                  lean (doc_of (send_body ''alice'' ''bob'' ''c3'') env3)]),
           json_error 401 ''invalid api key'', json_error 404 ''unknown user'',
           json_ok (PublicKeyBody (Some (JStr ''PEM_A''))),
           json_ok (UsersBody [''alice'', ''bob''])]"
    using randomHex_nonempty [of 2] x
    by (simp add: messages_m_normal [OF d] publicKey_m_def users_m_def User_findOne_def
        User_find_def d truthy_header_def)
      (simp add: sm_example_def alice_doc_def bob_doc_def example_bodies_def doc_of_def
        sort_timestamp_def M0_def send_body_def str_def env2_def env2b_def env3_def
        truthy_header_def)
  then show ?thesis
    by (simp add: session_def run_m_append scenario_m)
qed

lemma session_responses_f:
  "run_f K0 init_f session
   = [json_ok (TokenBody (randomHex 1)), json_ok (TokenBody (randomHex 2)),
      json_ok OkBody, json_ok OkBody, json_ok OkBody,
      json_ok (MessagesBody [message_of (send_body ''alice'' ''bob'' ''c1'') env2,
                             message_of (send_body ''alice'' ''bob'' ''c3'') env3]),
      json_error 401 ''invalid api key'', json_error 404 ''unknown user'',
      json_ok (PublicKeyBody (Some (JStr ''PEM_A''))), json_ok (UsersBody [''alice'', ''bob''])]"
proof -
  have x: "''x'' \<noteq> randomHex 2"
    by (simp add: randomHex_2)
  have "run_f K0 sf_example
          [(env3, Messages ''bob'' (Some (randomHex 2))), (env3, Messages ''bob'' (Some ''x'')),
           (env3, Messages ''carol'' None), (env3, PublicKey ''alice''), (env3, Users)]
        = [json_ok (MessagesBody [message_of (send_body ''alice'' ''bob'' ''c1'') env2,
                                  message_of (send_body ''alice'' ''bob'' ''c3'') env3]),
           json_error 401 ''invalid api key'', json_error 404 ''unknown user'',
           json_ok (PublicKeyBody (Some (JStr ''PEM_A''))),
           json_ok (UsersBody [''alice'', ''bob''])]"
    using randomHex_nonempty [of 2] x
    by (simp add: sf_example_def alice_rec_def bob_rec_def example_bodies_def message_of_def
        send_body_def messages_f_def publicKey_f_def users_f_def readJson_def js_get_def
        object_prototype_names_def object_keys_def array_index_def digit_def
        truthy_header_def Let_def)
  then show ?thesis
    by (simp add: session_def run_f_append scenario_f)
qed

text \<open>
  The claim C2 as stated fails, on runs where each server does what it was written to do.
  The database server returns the stored documents whole, with the \<^verbatim>\<open>_id\<close> the
  database gave them, and the flat-file server stores and returns six fields and no
  \<^verbatim>\<open>_id\<close>: on the scenario of the specification the sixth response, the messages of
  \<^verbatim>\<open>bob\<close>, differs in its body. The database server sorts the messages by timestamp
  and the flat-file server returns them as stored: when the clock goes back between two
  sends the two bodies differ in the order of the messages, also with every \<^verbatim>\<open>_id\<close>
  removed.
\<close>

theorem servers_differ_in_id_and_order:
  "run_f K0 init_f session ! 5
   = json_ok (MessagesBody [message_of (send_body ''alice'' ''bob'' ''c1'') env2,
                            message_of (send_body ''alice'' ''bob'' ''c3'') env3])
   \<and> run_m M0 init_m session ! 5
   = json_ok (MessagesBody [lean (doc_of (send_body ''alice'' ''bob'' ''c1'') env2),
                            lean (doc_of (send_body ''alice'' ''bob'' ''c3'') env3)])
   \<and> map msg_id [message_of (send_body ''alice'' ''bob'' ''c1'') env2,
                 message_of (send_body ''alice'' ''bob'' ''c3'') env3] = [None, None]
   \<and> map msg_id [lean (doc_of (send_body ''alice'' ''bob'' ''c1'') env2),
                 lean (doc_of (send_body ''alice'' ''bob'' ''c3'') env3)]
     = [Some (objectId 102), Some (objectId 103)]
   \<and> run_f K0 init_f clock_back_run ! 3
   = json_ok (MessagesBody [message_of (send_body ''alice'' ''alice'' ''c1'') env3,
                            message_of (send_body ''alice'' ''alice'' ''c2'') env2])
   \<and> strip_ids (run_m M0 init_m clock_back_run ! 3)
   = json_ok (MessagesBody [message_of (send_body ''alice'' ''alice'' ''c2'') env2,
                            message_of (send_body ''alice'' ''alice'' ''c1'') env3])"
proof -
  have 1: "run_f K0 init_f session ! 5
      = json_ok (MessagesBody [message_of (send_body ''alice'' ''bob'' ''c1'') env2,
                               message_of (send_body ''alice'' ''bob'' ''c3'') env3])"
    by (simp add: session_responses_f)
  have 2: "run_m M0 init_m session ! 5
      = json_ok (MessagesBody [lean (doc_of (send_body ''alice'' ''bob'' ''c1'') env2),
                               lean (doc_of (send_body ''alice'' ''bob'' ''c3'') env3)])"
    by (simp add: session_responses_m)
  have 3: "map msg_id [message_of (send_body ''alice'' ''bob'' ''c1'') env2,
                       message_of (send_body ''alice'' ''bob'' ''c3'') env3] = [None, None]"
    by (simp add: message_of_def)
  have 4: "map msg_id [lean (doc_of (send_body ''alice'' ''bob'' ''c1'') env2),
                       lean (doc_of (send_body ''alice'' ''bob'' ''c3'') env3)]
           = [Some (objectId 102), Some (objectId 103)]"
    by (simp add: lean_def doc_of_def env2_def env3_def)
  have 5: "run_f K0 init_f clock_back_run ! 3
      = json_ok (MessagesBody [message_of (send_body ''alice'' ''alice'' ''c1'') env3,
                               message_of (send_body ''alice'' ''alice'' ''c2'') env2])"
    by (simp add: clock_back_f)
  have v: "valid_send (send_body ''alice'' ''alice'' ''c1'')"
    "valid_send (send_body ''alice'' ''alice'' ''c2'')"
    by (simp_all add: valid_send_body)
  have 6: "strip_ids (run_m M0 init_m clock_back_run ! 3)
      = json_ok (MessagesBody [message_of (send_body ''alice'' ''alice'' ''c2'') env2,
                               message_of (send_body ''alice'' ''alice'' ''c1'') env3])"
    by (simp add: clock_back_m without_id_lean_doc_of [OF v(1)] without_id_lean_doc_of [OF v(2)])
  from 1 2 3 4 5 6 show ?thesis
    by (intro conjI)
qed

text \<open>
  Claim C2, amended. On every plain run from the fresh stores (the store working, body
  fields absent or strings, no name a property name of \<^verbatim>\<open>Object.prototype\<close>, no
  registered name an array index, no username registered twice, the clock advancing from
  each send request to the next), given the same random bytes and clock readings, the
  two servers produce the same sequence of status codes and response bodies, up to the
  \<^verbatim>\<open>_id\<close> that each message returned by the database server carries and no message
  returned by the flat-file server has.
\<close>

theorem servers_agree_on_plain_runs:
  assumes "plain_run rs"
  shows "map strip_ids (run_m M init_m rs) = run_f K init_f rs"
proof -
  have "run_f K init_f rs = map strip_ids (run_m M init_m rs)"
    using assms unfolding plain_run_def
    by (intro sim_run [OF sim_init]) (simp_all add: init_m_def)
  then show ?thesis
    by simp
qed

theorem servers_agree_on_plain_runs_witness:
  "map strip_ids (run_m M0 init_m session) = run_f K0 init_f session"
  using servers_agree_on_plain_runs [OF plain_session] .

subsection \<open>Why the runs must be plain\<close>

text \<open>
  Each condition of a plain run is needed. A field that is not a string is stored as it
  is by the flat-file server and cast or refused by the database schema, whatever Mongoose
  does with it:
\<close>

lemma numeric_field_differs:
  "strip_ids (run_m M init_m numeric_run ! 2) \<noteq> run_f K init_f numeric_run ! 2"
proof -
  have f: "run_f K init_f numeric_run ! 2
           = json_ok (MessagesBody
               [\<lparr>msg_id = None, msg_from = JStr ''alice'', msg_to = JStr ''alice'',
                 ciphertext = JNum 42, encryptedKey = JStr ''key'', iv = JStr ''iv'',
                 timestamp = 20\<rparr>])"
    using randomHex_nonempty [of 1]
    by (simp add: numeric_run_def init_f_def env0_def env1_def env2_def reg_body_def
        send_body_def register_f_def send_f_def messages_f_def readJson_def writeJson_def
        js_set_def js_get_def toPropertyKey_def truthy_header_def message_of_def Let_def)
  have "\<forall>m \<in> set ms. ciphertext m \<noteq> JNum 42"
    if "strip_ids (run_m M init_m numeric_run ! 2) = json_ok (MessagesBody ms)" for ms
    using that randomHex_nonempty [of 1]
    by (auto simp: numeric_run_def init_m_def env0_def env1_def env2_def reg_body_def
        send_body_def register_m_def send_m_def messages_m_def User_findOne_def User_save_def
        new_User_def new_Message_def Message_save_def Message_find_def sort_timestamp_def
        cast_def lean_def truthy_header_def Let_def
        split: option.splits if_splits)
  with f show ?thesis
    by force
qed

text \<open>\<^verbatim>\<open>Object.keys\<close> lists usernames that are array indices in numeric order:\<close>

lemma index_names_differ:
  "run_f K0 init_f index_run ! 2 = json_ok (UsersBody [''9'', ''10''])"
  "run_m M0 init_m index_run ! 2 = json_ok (UsersBody [''10'', ''9''])"
proof -
  show "run_f K0 init_f index_run ! 2 = json_ok (UsersBody [''9'', ''10''])"
    by (simp add: index_run_def init_f_def env0_def env1_def env2_def reg_body_def
        register_f_def users_f_def readJson_def writeJson_def js_set_def toPropertyKey_def
        object_keys_def array_index_def digit_def dec_value_def Let_def)
  show "run_m M0 init_m index_run ! 2 = json_ok (UsersBody [''10'', ''9''])"
    by (simp add: index_run_def init_m_def env0_def env1_def env2_def reg_body_def
        register_m_def users_m_def User_findOne_def User_save_def User_find_def new_User_def
        cast_def randomHex_nonempty Let_def)
qed

text \<open>A name inherited from \<^verbatim>\<open>Object.prototype\<close> is a user to the flat-file server:\<close>

lemma inherited_names_differ:
  "run_f K0 init_f inherited_run = [json_ok (PublicKeyBody None)]"
  "run_m M0 init_m inherited_run = [json_error 404 ''user not found'']"
  by (simp_all add: inherited_run_def init_f_def init_m_def env0_def publicKey_f_def
      publicKey_m_def User_findOne_def readJson_def js_get_def object_prototype_names_def)

text \<open>
  After a username was registered twice, the database server accepts the token of the
  first registration and the flat-file server, which replaced it, answers 401:
\<close>

lemma second_registration_differs:
  "map status (run_f K0 init_f twice) = [200, 200, 401]"
  "map status (run_m M0 init_m twice) = [200, 200, 200]"
proof -
  show "map status (run_f K0 init_f twice) = [200, 200, 401]"
    by (simp add: twice_def init_f_def env0_def env1_def env2_def reg_body_def register_f_def
        messages_f_def readJson_def writeJson_def js_set_def js_get_def toPropertyKey_def
        truthy_header_def Let_def randomHex_1 randomHex_2)
  show "map status (run_m M0 init_m twice) = [200, 200, 200]"
    by (simp add: twice_def init_m_def env0_def env1_def env2_def reg_body_def register_m_def
        messages_m_def User_findOne_def User_save_def Message_find_def new_User_def cast_def
        truthy_header_def Let_def randomHex_1)
qed

text \<open>
  When two messages for the same recipient are sent within the same millisecond, the
  flat-file server returns them in the order they were sent and the database server in
  the order the database gives documents of equal timestamp, here the reverse:
\<close>

lemma tie_differs:
  "run_f K0 init_f tie_run ! 3
   = json_ok (MessagesBody [message_of (send_body ''alice'' ''alice'' ''c1'') env2,
                            message_of (send_body ''alice'' ''alice'' ''c2'') env_tie])"
  "strip_ids (run_m M_rev init_m tie_run ! 3)
   = json_ok (MessagesBody [message_of (send_body ''alice'' ''alice'' ''c2'') env_tie,
                            message_of (send_body ''alice'' ''alice'' ''c1'') env2])"
proof -
  have v: "valid_send (send_body ''alice'' ''alice'' ''c1'')"
    "valid_send (send_body ''alice'' ''alice'' ''c2'')"
    by (simp_all add: valid_send_body)
  show "run_f K0 init_f tie_run ! 3
      = json_ok (MessagesBody [message_of (send_body ''alice'' ''alice'' ''c1'') env2,
                               message_of (send_body ''alice'' ''alice'' ''c2'') env_tie])"
    by (simp add: tie_f)
  show "strip_ids (run_m M_rev init_m tie_run ! 3)
      = json_ok (MessagesBody [message_of (send_body ''alice'' ''alice'' ''c2'') env_tie,
                               message_of (send_body ''alice'' ''alice'' ''c1'') env2])"
    by (simp add: tie_m without_id_lean_doc_of [OF v(1)] without_id_lean_doc_of [OF v(2)])
qed

end
